theory Spec2Isabelle
  imports Complex_Main "HOL-Library.Multiset" "HOL-Library.Sublist"
begin

section \<open>JavaScript values\<close>

text \<open>
  The client handles loosely typed JSON: the TypeScript casts (\<open>as string\<close>) are erased at
  run time, so a field holds whatever the remote service sent. A value is \<open>undefined\<close>,
  \<open>null\<close>, a boolean, a number, a string, an array or an object (its properties in source
  order). \<open>JFun\<close> is a built-in method reached by a property read (\<open>[].map\<close>): it is truthy
  and is no JSON value. Strings are lists of Isabelle characters, read as code units.
\<close>

datatype jsval =
    JUndefined
  | JNull
  | JBool bool
  | JNum real
  | JStr string
  | JArr "jsval list"
  | JObj "(string \<times> jsval) list"
  | JFun string

text \<open>Truthiness, as \<open>if (v)\<close>, \<open>!v\<close>, \<open>a || b\<close> and \<open>a && b\<close> test it.\<close>

fun truthy :: "jsval \<Rightarrow> bool" where
  "truthy JUndefined = False"
| "truthy JNull = False"
| "truthy (JBool b) = b"
| "truthy (JNum n) = (n \<noteq> 0)"
| "truthy (JStr s) = (s \<noteq> [])"
| "truthy (JArr xs) = True"
| "truthy (JObj kvs) = True"
| "truthy (JFun f) = True"

definition js_or :: "jsval \<Rightarrow> jsval \<Rightarrow> jsval" where
  "js_or a b = (if truthy a then a else b)"

definition js_and :: "jsval \<Rightarrow> jsval \<Rightarrow> jsval" where
  "js_and a b = (if truthy a then b else a)"

definition nullish :: "jsval \<Rightarrow> bool" where
  "nullish v = (v = JUndefined \<or> v = JNull)"

text \<open>\<open>a ?? b\<close>\<close>

definition js_coalesce :: "jsval \<Rightarrow> jsval \<Rightarrow> jsval" where
  "js_coalesce a b = (if nullish a then b else a)"

text \<open>
  \<open>v.k\<close> on a value that is neither \<open>null\<close> nor \<open>undefined\<close> (on those the read throws, and
  every caller below tests for them first). \<open>JSON.parse\<close> keeps the last of two equal keys.
  Of the property names this client reads, \<open>length\<close> and \<open>map\<close> are the only ones that
  strings and arrays have themselves.
\<close>

fun js_get :: "jsval \<Rightarrow> string \<Rightarrow> jsval" where
  "js_get (JObj kvs) k = (case map_of (rev kvs) k of Some v \<Rightarrow> v | None \<Rightarrow> JUndefined)"
| "js_get (JArr xs) k =
     (if k = ''length'' then JNum (real (length xs))
      else if k = ''map'' then JFun ''map''
      else JUndefined)"
| "js_get (JStr s) k = (if k = ''length'' then JNum (real (length s)) else JUndefined)"
| "js_get v k = JUndefined"

text \<open>\<open>v?.k\<close>\<close>

definition prop_opt :: "jsval \<Rightarrow> string \<Rightarrow> jsval" where
  "prop_opt v k = (if nullish v then JUndefined else js_get v k)"

section \<open>The environment of the client\<close>

text \<open>
  What the client reads from its platform and its libraries, none of it code of this
  repository: the JavaScript built-ins whose results depend on Unicode tables, number
  formatting or the date parser; the key builder and the TTL constants of the
  \<open>@local/plugin-cache\<close> package; the transport (\<open>fetch\<close>), the clock, the timer and the
  random number generator, which act on an external world \<open>'w\<close>; and the configuration.
\<close>

record http_request =
  http_method :: string
  url :: string
  token_header :: string
  body :: "jsval option"

text \<open>
  A response: its status, its headers under the names the client asks for, and its body
  (\<open>None\<close> when \<open>response.json()\<close> rejects).
\<close>

record response =
  resp_status :: nat
  resp_headers :: "(string \<times> string) list"
  resp_json :: "jsval option"

datatype fetch_outcome =
    Responded response
  | Aborted
  | Failed string

record ttl_table =
  HOUR :: nat
  DAY :: nat
  FIFTEEN_MINUTES :: nat
  THIRTY_MINUTES :: nat

record 'w env =
  toUpperCase :: "string \<Rightarrow> string"
  numberToString :: "real \<Rightarrow> string"
  JSON_stringify :: "jsval \<Rightarrow> string"
  Date_getTime :: "jsval \<Rightarrow> int option"
  createCacheKey :: "string \<Rightarrow> (string \<times> jsval) list \<Rightarrow> string"
  TTL :: ttl_table
  encodeURIComponent :: "string \<Rightarrow> string"
  URLSearchParams_toString :: "(string \<times> string) list \<Rightarrow> string"
  fetch :: "http_request \<Rightarrow> 'w \<Rightarrow> fetch_outcome \<times> 'w"
  Date_now :: "'w \<Rightarrow> int"
  Date_toISOString :: "'w \<Rightarrow> string"
  Math_random :: "'w \<Rightarrow> real \<times> 'w"
  setTimeout :: "real \<Rightarrow> 'w \<Rightarrow> 'w"
  baseUrl :: string
  apiKey :: string

text \<open>
  \<open>Date_getTime E v\<close> is \<open>new Date(v).getTime()\<close>, \<open>None\<close> for \<open>NaN\<close> (an invalid date).
\<close>

text \<open>
  Modelled from the spec: the TTL constants of \<open>@local/plugin-cache\<close>, which is not in this
  repository. Section 4.3 gives 2h for \<open>TTL.HOUR * 2\<close>, 4h for \<open>TTL.HOUR * 4\<close>, 24h for
  \<open>TTL.DAY\<close> and 15 to 30 minutes for the list TTLs; the unit here is the second.
\<close>

definition spec_TTL :: ttl_table where
  "spec_TTL = \<lparr>HOUR = 3600, DAY = 86400, FIFTEEN_MINUTES = 900, THIRTY_MINUTES = 1800\<rparr>"

section \<open>Status mapping\<close>

text \<open>
  What the client throws. \<open>RateLimitError\<close> carries \<open>retryAfter\<close>: \<open>None\<close> when it is
  \<open>undefined\<close>, \<open>Some None\<close> when \<open>parseInt\<close> gave \<open>NaN\<close>. \<open>NetworkError\<close> is the rejection
  of \<open>fetch\<close> itself, \<open>TypeError\<close> the engine's error on a read from \<open>null\<close> or a call of
  something that is no function, \<open>Error\<close> a plain \<open>new Error(message)\<close>.
\<close>

datatype error =
    ApiError nat jsval
  | RateLimitError "int option option"
  | InsufficientCreditsError jsval
  | NetworkError string
  | TypeError string
  | Error string

definition upper_letters :: string where
  "upper_letters = ''ABCDEFGHIJKLMNOPQRSTUVWXYZ''"

definition lower_letters :: string where
  "lower_letters = ''abcdefghijklmnopqrstuvwxyz''"

text \<open>\<open>.replace(/[^A-Z_]/g, "_")\<close>, one code unit at a time.\<close>

definition replace_non_status_chars :: "string \<Rightarrow> string" where
  "replace_non_status_chars s =
     map (\<lambda>c. if c \<in> set upper_letters \<or> c = CHR ''_'' then c else CHR ''_'') s"

definition statusMap :: "(string \<times> string) list" where
  "statusMap =
    [(''PENDING'', ''PENDING''),
     (''INPROGRESS'', ''EN_ROUTE''),
     (''IN_PROGRESS'', ''EN_ROUTE''),
     (''IN_TRANSIT'', ''EN_ROUTE''),
     (''EN_ROUTE'', ''EN_ROUTE''),
     (''DISCHARGED'', ''ARRIVED''),
     (''ARRIVED'', ''ARRIVED''),
     (''DELIVERED'', ''DELIVERED''),
     (''DISCARDED'', ''DISCARDED''),
     (''NOT_FOUND'', ''NOT_FOUND'')]"

text \<open>
  \<open>mapStatus\<close>: a falsy argument gives PENDING; \<open>toUpperCase\<close> exists on strings only, so
  any other truthy argument throws a TypeError.
\<close>

definition mapStatus :: "'w env \<Rightarrow> jsval \<Rightarrow> error + string" where
  "mapStatus E st =
     (if \<not> truthy st then Inr ''PENDING''
      else case st of
        JStr s \<Rightarrow>
          (let normalized = replace_non_status_chars (toUpperCase E s) in
           case map_of statusMap normalized of
             Some v \<Rightarrow> Inr (if v \<noteq> [] then v else ''PENDING'')
           | None \<Rightarrow> Inr ''PENDING'')
      | _ \<Rightarrow> Inl (TypeError ''status.toUpperCase is not a function''))"

text \<open>The six values of \<open>Shipment["status"]\<close>.\<close>

definition status_values :: "string list" where
  "status_values =
     [''PENDING'', ''EN_ROUTE'', ''ARRIVED'', ''DELIVERED'', ''DISCARDED'', ''NOT_FOUND'']"

text \<open>
  The status mapping in the words of the specification: upper-case, replace every
  character that is not a letter or underscore with an underscore, look the result up in
  the synonym table; a status that is none of the six values becomes PENDING.
\<close>

definition spec_synonyms :: "(string \<times> string) list" where
  "spec_synonyms =
    [(''INPROGRESS'', ''EN_ROUTE''),
     (''IN_PROGRESS'', ''EN_ROUTE''),
     (''IN_TRANSIT'', ''EN_ROUTE''),
     (''DISCHARGED'', ''ARRIVED'')]"

definition spec_mapStatus :: "(string \<Rightarrow> string) \<Rightarrow> string \<Rightarrow> string" where
  "spec_mapStatus upper s =
     (let n = map (\<lambda>c. if c \<in> set upper_letters \<or> c \<in> set lower_letters \<or> c = CHR ''_''
                        then c else CHR ''_'') (upper s) in
      case map_of spec_synonyms n of
        Some v \<Rightarrow> v
      | None \<Rightarrow> if n \<in> set status_values then n else ''PENDING'')"

text \<open>ASCII upper-casing, the part of \<open>toUpperCase\<close> that does not depend on Unicode tables.\<close>

definition ascii_upper :: "string \<Rightarrow> string" where
  "ascii_upper s =
     map (\<lambda>c. case map_of (zip lower_letters upper_letters) c of Some u \<Rightarrow> u | None \<Rightarrow> c) s"

section \<open>The canonical shipment\<close>

text \<open>
  The fields of \<open>Shipment\<close>. A field the mapper fills with \<open>a || b\<close> holds a value of any
  kind; an optional field the mapper assigns under an \<open>if\<close> is an \<open>option\<close>.
\<close>

record vessel_info =
  vessel_name :: jsval
  vessel_imo :: jsval

record pol_info =
  pol_code :: jsval
  pol_name :: jsval
  pol_departure :: jsval

record pod_info =
  pod_code :: jsval
  pod_name :: jsval
  pod_eta :: jsval
  pod_ata :: jsval

record milestone =
  event :: jsval
  location :: jsval
  timestamp :: jsval
  is_actual :: bool

record coords =
  lat :: jsval
  lng :: jsval

record shipment =
  shipment_id :: string
  requestId :: "string option"
  status :: string
  container_number :: jsval
  bl_number :: jsval
  booking_number :: jsval
  carrier :: jsval
  vessel :: "vessel_info option"
  pol :: "pol_info option"
  pod :: "pod_info option"
  milestones :: "milestone list option"
  coordinates :: "coords option"
  created_at :: jsval
  updated_at :: jsval
  discarded_at :: "jsval option"
  custom_reference :: jsval

section \<open>Response mapper\<close>

fun join_comma :: "string list \<Rightarrow> string" where
  "join_comma [] = []"
| "join_comma [x] = x"
| "join_comma (x # y # ys) = x @ '','' @ join_comma (y # ys)"

text \<open>\<open>String(v)\<close> and \<open>`${v}`\<close>.\<close>

fun js_String :: "'w env \<Rightarrow> jsval \<Rightarrow> string" where
  "js_String E JUndefined = ''undefined''"
| "js_String E JNull = ''null''"
| "js_String E (JBool b) = (if b then ''true'' else ''false'')"
| "js_String E (JNum r) = numberToString E r"
| "js_String E (JStr s) = s"
| "js_String E (JArr xs) =
     join_comma (map (\<lambda>x. if x = JUndefined \<or> x = JNull then [] else js_String E x) xs)"
| "js_String E (JObj kvs) = ''[object Object]''"
| "js_String E (JFun f) = ''function '' @ f @ ''() { [native code] }''"

text \<open>One element of \<open>events.map(e => ...)\<close>: reading \<open>e.event\<close> throws when \<open>e\<close> is \<open>null\<close>.\<close>

definition mapMilestone :: "jsval \<Rightarrow> error + milestone" where
  "mapMilestone e =
     (if nullish e then Inl (TypeError ''Cannot read properties of null'')
      else Inr \<lparr>event = js_or (js_or (js_get e ''event'') (js_get e ''description'')) (JStr []),
                location = js_get e ''location'',
                timestamp = js_or (js_or (js_get e ''timestamp'') (js_get e ''date'')) (JStr []),
                is_actual = truthy (js_coalesce (js_coalesce (js_get e ''isActual'')
                                       (js_get e ''is_actual'')) (JBool True))\<rparr>)"

text \<open>\<open>xs.map(f)\<close> with a callback that can throw: the first throw ends the mapping.\<close>

fun map_result :: "('a \<Rightarrow> error + 'b) \<Rightarrow> 'a list \<Rightarrow> error + 'b list" where
  "map_result f [] = Inr []"
| "map_result f (x # xs) =
     (case f x of
        Inl err \<Rightarrow> Inl err
      | Inr y \<Rightarrow> (case map_result f xs of Inl err \<Rightarrow> Inl err | Inr ys \<Rightarrow> Inr (y # ys)))"

text \<open>
  The \<open>milestones\<close> field: absent unless one of \<open>raw.milestones\<close>, \<open>raw.events\<close> is an array;
  \<open>raw.milestones || raw.events\<close> is then mapped, and \<open>.map\<close> on a value that is no array
  throws.
\<close>

definition is_array :: "jsval \<Rightarrow> bool" where
  "is_array v = (case v of JArr xs \<Rightarrow> True | _ \<Rightarrow> False)"

definition mapMilestoneField :: "jsval \<Rightarrow> error + milestone list option" where
  "mapMilestoneField raw =
     (if is_array (js_get raw ''milestones'') \<or> is_array (js_get raw ''events'')
      then (case js_or (js_get raw ''milestones'') (js_get raw ''events'') of
              JArr es \<Rightarrow> (case map_result mapMilestone es of Inl err \<Rightarrow> Inl err | Inr ms \<Rightarrow> Inr (Some ms))
            | _ \<Rightarrow> Inl (TypeError ''events.map is not a function''))
      else Inr None)"

text \<open>The \<open>coordinates\<close> field of \<open>mapToShipment\<close>.\<close>

definition mapCoordinates :: "jsval \<Rightarrow> coords option" where
  "mapCoordinates raw =
     (if truthy (js_get raw ''coordinates'') \<or>
         truthy (js_and (js_get raw ''latitude'') (js_get raw ''longitude''))
      then (let c = js_or (js_get raw ''coordinates'') (JObj []) in
            Some \<lparr>lat = js_or (js_or (js_get c ''lat'') (js_get c ''latitude''))
                             (js_get raw ''latitude''),
                  lng = js_or (js_or (js_get c ''lng'') (js_get c ''longitude''))
                             (js_get raw ''longitude'')\<rparr>)
      else None)"

definition mapVessel :: "jsval \<Rightarrow> vessel_info option" where
  "mapVessel raw =
     (if truthy (js_get raw ''vessel'') \<or> truthy (js_get raw ''vesselName'')
      then Some \<lparr>vessel_name = js_or (js_or (prop_opt (js_get raw ''vessel'') ''name'')
                                           (js_get raw ''vesselName'')) (JStr []),
                 vessel_imo = js_or (prop_opt (js_get raw ''vessel'') ''imo'')
                                    (js_get raw ''vesselImo'')\<rparr>
      else None)"

definition mapPol :: "jsval \<Rightarrow> pol_info option" where
  "mapPol raw =
     (if truthy (js_get raw ''pol'') \<or> truthy (js_get raw ''portOfLoading'')
      then (let p = js_or (js_get raw ''pol'') (JObj []) in
            Some \<lparr>pol_code = js_or (js_or (js_get p ''code'') (js_get raw ''polCode'')) (JStr []),
                  pol_name = js_or (js_or (js_get p ''name'') (js_get raw ''portOfLoading''))
                                   (JStr []),
                  pol_departure = js_or (js_or (js_get p ''departure'') (js_get raw ''etd''))
                                        (js_get raw ''atd'')\<rparr>)
      else None)"

definition mapPod :: "jsval \<Rightarrow> pod_info option" where
  "mapPod raw =
     (if truthy (js_get raw ''pod'') \<or> truthy (js_get raw ''portOfDischarge'')
      then (let p = js_or (js_get raw ''pod'') (JObj []) in
            Some \<lparr>pod_code = js_or (js_or (js_get p ''code'') (js_get raw ''podCode'')) (JStr []),
                  pod_name = js_or (js_or (js_get p ''name'') (js_get raw ''portOfDischarge''))
                                   (JStr []),
                  pod_eta = js_or (js_get p ''eta'') (js_get raw ''eta''),
                  pod_ata = js_or (js_get p ''ata'') (js_get raw ''ata'')\<rparr>)
      else None)"

text \<open>
  \<open>mapToShipment\<close>. Every read of \<open>raw\<close> throws when \<open>raw\<close> is \<open>null\<close>; \<open>mapStatus\<close> and the
  milestones can throw; \<open>new Date().toISOString()\<close> reads the clock of the world \<open>w\<close>.
\<close>

definition mapToShipment :: "'w env \<Rightarrow> 'w \<Rightarrow> jsval \<Rightarrow> error + shipment" where
  "mapToShipment E w raw =
     (if nullish raw then Inl (TypeError ''Cannot read properties of null'')
      else case mapStatus E (js_or (js_get raw ''status'') (js_get raw ''shippingStatus'')) of
        Inl err \<Rightarrow> Inl err
      | Inr st \<Rightarrow>
         (case mapMilestoneField raw of
            Inl err \<Rightarrow> Inl err
          | Inr ms \<Rightarrow>
              Inr \<lparr>shipment_id =
                     js_String E (js_or (js_or (js_get raw ''id'') (js_get raw ''requestId''))
                                        (JStr [])),
                   requestId =
                     (if truthy (js_get raw ''requestId'')
                      then Some (js_String E (js_get raw ''requestId'')) else None),
                   status = st,
                   container_number =
                     js_or (js_get raw ''containerNumber'') (js_get raw ''container_number''),
                   bl_number = js_or (js_get raw ''blNumber'') (js_get raw ''bl_number''),
                   booking_number =
                     js_or (js_get raw ''bookingNumber'') (js_get raw ''booking_number''),
                   carrier = js_or (js_get raw ''carrier'') (js_get raw ''shippingLine''),
                   vessel = mapVessel raw,
                   pol = mapPol raw,
                   pod = mapPod raw,
                   milestones = ms,
                   coordinates = mapCoordinates raw,
                   created_at =
                     js_or (js_or (js_get raw ''createdAt'') (js_get raw ''created_at''))
                           (JStr (Date_toISOString E w)),
                   updated_at =
                     js_or (js_or (js_get raw ''updatedAt'') (js_get raw ''updated_at''))
                           (JStr (Date_toISOString E w)),
                   discarded_at =
                     (if truthy (js_or (js_get raw ''discardedAt'') (js_get raw ''discarded_at''))
                      then Some (js_or (js_get raw ''discardedAt'') (js_get raw ''discarded_at''))
                      else None),
                   custom_reference =
                     js_or (js_get raw ''customReference'') (js_get raw ''custom_reference'')\<rparr>))"

section \<open>Best-match selection\<close>

definition statusOrder :: "(string \<times> int) list" where
  "statusOrder =
     [(''EN_ROUTE'', 0), (''PENDING'', 1), (''ARRIVED'', 2), (''DELIVERED'', 3),
      (''DISCARDED'', 4), (''NOT_FOUND'', 5)]"

text \<open>
  \<open>statusOrder[s.status] ?? 5\<close>. The table is an object literal, so a status that names a
  member of \<open>Object.prototype\<close> reads that member instead of \<open>undefined\<close>; \<open>??\<close> keeps it,
  and in the subtraction it is \<open>NaN\<close> (\<open>None\<close>).
\<close>

definition object_prototype_members :: "string list" where
  "object_prototype_members =
     [''constructor'', ''__defineGetter__'', ''__defineSetter__'', ''hasOwnProperty'',
      ''__lookupGetter__'', ''__lookupSetter__'', ''isPrototypeOf'', ''propertyIsEnumerable'',
      ''toString'', ''valueOf'', ''__proto__'', ''toLocaleString'']"

definition statusRank :: "shipment \<Rightarrow> int option" where
  "statusRank s =
     (case map_of statusOrder (status s) of
        Some n \<Rightarrow> Some n
      | None \<Rightarrow> if status s \<in> set object_prototype_members then None else Some 5)"

text \<open>
  The comparator handed to \<open>sort\<close>: the difference of the status ranks when it is not 0
  (a \<open>NaN\<close> difference is not 0 and is returned), else the difference of the creation
  times, \<open>None\<close> (\<open>NaN\<close>) when one of the dates is invalid.
\<close>

definition compareShipments :: "'w env \<Rightarrow> shipment \<Rightarrow> shipment \<Rightarrow> int option" where
  "compareShipments E a b =
     (case (statusRank a, statusRank b) of
        (Some ra, Some rb) \<Rightarrow>
          (let statusDiff = ra - rb in
           if statusDiff \<noteq> 0 then Some statusDiff
           else case (Date_getTime E (created_at b), Date_getTime E (created_at a)) of
                  (Some tb, Some ta) \<Rightarrow> Some (tb - ta)
                | _ \<Rightarrow> None)
      | _ \<Rightarrow> None)"

text \<open>
  \<open>Array.prototype.sort\<close> with a comparator: a stable sort in which \<open>a\<close> stays before \<open>b\<close>
  unless the comparator puts \<open>b\<close> first; a \<open>NaN\<close> from the comparator counts as 0. The
  language fixes the result when the comparator is consistent, which is where it agrees
  with this insertion sort; otherwise the order is left to the engine.
\<close>

definition comes_first :: "('a \<Rightarrow> 'a \<Rightarrow> int option) \<Rightarrow> 'a \<Rightarrow> 'a \<Rightarrow> bool" where
  "comes_first cmp a b = (case cmp a b of None \<Rightarrow> True | Some d \<Rightarrow> d \<le> 0)"

fun sort_insert :: "('a \<Rightarrow> 'a \<Rightarrow> int option) \<Rightarrow> 'a \<Rightarrow> 'a list \<Rightarrow> 'a list" where
  "sort_insert cmp x [] = [x]"
| "sort_insert cmp x (y # ys) =
     (if comes_first cmp x y then x # y # ys else y # sort_insert cmp x ys)"

definition js_sort :: "('a \<Rightarrow> 'a \<Rightarrow> int option) \<Rightarrow> 'a list \<Rightarrow> 'a list" where
  "js_sort cmp xs = foldr (sort_insert cmp) xs []"

definition not_discarded :: "shipment \<Rightarrow> bool" where
  "not_discarded s = (case discarded_at s of None \<Rightarrow> True | Some v \<Rightarrow> \<not> truthy v)"

text \<open>\<open>selectBestMatch\<close>; \<open>None\<close> is \<open>null\<close>.\<close>

definition selectBestMatch :: "'w env \<Rightarrow> shipment list \<Rightarrow> shipment option" where
  "selectBestMatch E shipments =
     (case shipments of
        [] \<Rightarrow> None
      | [s] \<Rightarrow> Some s
      | s # rest \<Rightarrow>
          (case js_sort (compareShipments E) (filter not_discarded shipments) of
             best # others \<Rightarrow> Some best
           | [] \<Rightarrow> Some s))"

text \<open>
  The order of the specification on two shipments: a better status priority (EN_ROUTE,
  PENDING, ARRIVED, DELIVERED, DISCARDED, then NOT_FOUND and every unknown status), or
  the same priority and a creation time that is no earlier (both dates being valid).
\<close>

definition spec_priority :: "string \<Rightarrow> nat" where
  "spec_priority st =
     (if st = ''EN_ROUTE'' then 0
      else if st = ''PENDING'' then 1
      else if st = ''ARRIVED'' then 2
      else if st = ''DELIVERED'' then 3
      else if st = ''DISCARDED'' then 4
      else 5)"

definition spec_precedes :: "'w env \<Rightarrow> shipment \<Rightarrow> shipment \<Rightarrow> bool" where
  "spec_precedes E a b =
     (spec_priority (status a) < spec_priority (status b) \<or>
      (spec_priority (status a) = spec_priority (status b) \<and>
       (case (Date_getTime E (created_at a), Date_getTime E (created_at b)) of
          (Some ta, Some tb) \<Rightarrow> tb \<le> ta
        | _ \<Rightarrow> False)))"

text \<open>
  The selector in the words of the specification: drop the discarded entries unless
  that empties the list, sort the survivors by status priority and then by creation
  time, latest first, ties keeping the order of the input (a stable sort), and return
  the head: the first survivor that precedes every survivor.
\<close>

definition spec_selectBestMatch :: "'w env \<Rightarrow> shipment list \<Rightarrow> shipment option" where
  "spec_selectBestMatch E shipments =
     (let survivors = (if filter not_discarded shipments = [] then shipments
                       else filter not_discarded shipments) in
      find (\<lambda>x. list_all (spec_precedes E x) survivors) survivors)"

text \<open>
  The candidates on which the comparator of the source is an order: the creation time is
  a valid date, and the status does not name a member of \<open>Object.prototype\<close>. Every
  status that \<open>mapStatus\<close> produces is such a status.
\<close>

definition orderable :: "'w env \<Rightarrow> shipment \<Rightarrow> bool" where
  "orderable E s =
     (Date_getTime E (created_at s) \<noteq> None \<and> status s \<notin> set object_prototype_members)"

section \<open>State of the client, cache store\<close>

record sharing_link_result =
  link_url :: string
  link_shipmentId :: string
  link_containerNumber :: jsval
  link_status :: jsval
  link_pol :: jsval
  link_pod :: jsval
  link_eta :: jsval

text \<open>
  What the operations of the client put in the cache. \<open>cache.get<T>\<close> is a cast, not a
  check, so what an operation reads back is a value of this type, of whatever kind the
  key holds.
\<close>

datatype cached =
    CNull
  | CShipment shipment
  | CShipments "shipment list"
  | CListing "shipment list" jsval
  | CLink sharing_link_result
  | CPosition jsval jsval jsval

definition cached_truthy :: "cached \<Rightarrow> bool" where
  "cached_truthy c = (c \<noteq> CNull)"

text \<open>\<open>c.status\<close> and \<open>c.discarded_at\<close> on a cached value.\<close>

definition status_prop :: "cached \<Rightarrow> jsval" where
  "status_prop c =
     (case c of CShipment s \<Rightarrow> JStr (status s) | CLink l \<Rightarrow> link_status l | _ \<Rightarrow> JUndefined)"

definition discarded_prop :: "cached \<Rightarrow> jsval" where
  "discarded_prop c =
     (case c of
        CShipment s \<Rightarrow> (case discarded_at s of Some v \<Rightarrow> v | None \<Rightarrow> JUndefined)
      | _ \<Rightarrow> JUndefined)"

text \<open>\<open>getCacheTTL\<close>: a \<open>switch\<close> on the status, whose \<open>default\<close> takes everything else.\<close>

definition getCacheTTL :: "'w env \<Rightarrow> cached \<Rightarrow> nat" where
  "getCacheTTL E c =
     (let st = status_prop c in
      if st = JStr ''PENDING'' \<or> st = JStr ''EN_ROUTE'' then HOUR (TTL E) * 2
      else if st = JStr ''ARRIVED'' then HOUR (TTL E) * 4
      else if st = JStr ''DELIVERED'' \<or> st = JStr ''DISCARDED'' then DAY (TTL E)
      else HOUR (TTL E) * 2)"

record rate_limit_data =
  serverRemaining :: "int option option"
  serverLimit :: "int option option"
  serverResetAt :: "int option option"
  lastServerUpdate :: "int option"
  localCalls :: "int list"

record cache_store =
  entries :: "(string \<times> cached \<times> nat) list"
  enabled :: bool

text \<open>
  The state an operation runs in: the external world, the cache store of the module,
  the \<open>cacheDisabled\<close> flag, the rate-limit file (\<open>None\<close> when it is missing or unreadable)
  and two logs kept for the statements below, of the requests handed to \<open>fetch\<close> and of
  the delays slept.
\<close>

record 'w state =
  world :: 'w
  cache :: cache_store
  cacheDisabled :: bool
  rateLimitFile :: "rate_limit_data option"
  sent :: "http_request list"
  slept :: "real list"

type_synonym ('a, 'w) prog = "'w state \<Rightarrow> (error + 'a) \<times> 'w state"

text \<open>
  Modelled from the spec: the store of \<open>@local/plugin-cache\<close>, which is not in this
  repository (section 4.3): \<open>get(key)\<close> reports a hit and the value, \<open>set\<close> stores a value
  with its TTL, \<open>getOrFetch\<close> returns the cached value on a hit without invoking the
  producer and, on a miss or a bypass, invokes the producer, stores its result and
  returns it; a disabled store reports no hit. The store holds the live entries: expiry
  and the hit and miss counters are its own business.
\<close>

definition cache_get :: "cache_store \<Rightarrow> string \<Rightarrow> cached option" where
  "cache_get c k =
     (if enabled c then (case map_of (entries c) k of Some (v, ttl) \<Rightarrow> Some v | None \<Rightarrow> None)
      else None)"

definition cache_set :: "cache_store \<Rightarrow> string \<Rightarrow> cached \<Rightarrow> nat \<Rightarrow> cache_store" where
  "cache_set c k v ttl = c\<lparr>entries := (k, v, ttl) # entries c\<rparr>"

definition getOrFetch ::
  "string \<Rightarrow> (cached, 'w) prog \<Rightarrow> nat \<Rightarrow> bool \<Rightarrow> (cached, 'w) prog" where
  "getOrFetch k producer ttl bypassCache s =
     (case (if bypassCache then None else cache_get (cache s) k) of
        Some v \<Rightarrow> (Inr v, s)
      | None \<Rightarrow>
          (case producer s of
             (Inl err, s1) \<Rightarrow> (Inl err, s1)
           | (Inr v, s1) \<Rightarrow> (Inr v, s1\<lparr>cache := cache_set (cache s1) k v ttl\<rparr>)))"

section \<open>Rate-limit bookkeeping and the HTTP helper\<close>

definition is_space :: "char \<Rightarrow> bool" where
  "is_space c = (c \<in> {CHR '' '', CHR 0x09, CHR 0x0A, CHR 0x0B, CHR 0x0C, CHR 0x0D})"

definition digit_chars :: string where
  "digit_chars = ''0123456789''"

definition digit_value :: "char \<Rightarrow> nat" where
  "digit_value c =
     (case map_of (zip digit_chars [0, 1, 2, 3, 4, 5, 6, 7, 8, 9]) c of
        Some d \<Rightarrow> d
      | None \<Rightarrow> 0)"

text \<open>
  \<open>parseInt(s, 10)\<close>: leading white space, a sign, then the longest run of digits;
  \<open>None\<close> is \<open>NaN\<close>.
\<close>

definition parseInt :: "string \<Rightarrow> int option" where
  "parseInt s =
     (let t = dropWhile is_space s;
          neg = (case t of c # r \<Rightarrow> c = CHR ''-'' | [] \<Rightarrow> False);
          u = (case t of c # r \<Rightarrow> if c = CHR ''-'' \<or> c = CHR ''+'' then r else t | [] \<Rightarrow> t);
          ds = takeWhile (\<lambda>c. c \<in> set digit_chars) u;
          n = int (foldl (\<lambda>a c. 10 * a + digit_value c) 0 ds)
      in if ds = [] then None else Some (if neg then - n else n))"

text \<open>\<open>response.headers.get(name)\<close>; \<open>h1 || h2\<close> on two such results.\<close>

definition header :: "response \<Rightarrow> string \<Rightarrow> string option" where
  "header r name = map_of (resp_headers r) name"

definition header_truthy :: "string option \<Rightarrow> bool" where
  "header_truthy h = (case h of Some v \<Rightarrow> v \<noteq> [] | None \<Rightarrow> False)"

definition ok :: "response \<Rightarrow> bool" where
  "ok r = (200 \<le> resp_status r \<and> resp_status r \<le> 299)"

text \<open>\<open>await response.json().catch(() => ({}))\<close>\<close>

definition json_or_empty :: "response \<Rightarrow> jsval" where
  "json_or_empty r = (case resp_json r of Some v \<Rightarrow> v | None \<Rightarrow> JObj [])"

text \<open>
  \<open>updateRateLimitFromResponse\<close>, with \<open>loadRateLimitData\<close> and \<open>saveRateLimitData\<close>; the
  clock is read once, and the write succeeds.
\<close>

definition updateRateLimitFromResponse :: "'w env \<Rightarrow> response \<Rightarrow> 'w state \<Rightarrow> 'w state" where
  "updateRateLimitFromResponse E r s =
     (let d0 = (case rateLimitFile s of
                  Some d \<Rightarrow> d
                | None \<Rightarrow> \<lparr>serverRemaining = None, serverLimit = None, serverResetAt = None,
                           lastServerUpdate = None, localCalls = []\<rparr>);
          remaining = header r ''X-RateLimit-Remaining'';
          limit = header r ''X-RateLimit-Limit'';
          reset = (if header_truthy (header r ''X-RateLimit-Reset'')
                   then header r ''X-RateLimit-Reset'' else header r ''Retry-After'');
          now = Date_now E (world s);
          d1 = (case remaining of
                  Some h \<Rightarrow> if h \<noteq> [] then d0\<lparr>serverRemaining := Some (parseInt h)\<rparr> else d0
                | None \<Rightarrow> d0);
          d2 = (case limit of
                  Some h \<Rightarrow> if h \<noteq> [] then d1\<lparr>serverLimit := Some (parseInt h)\<rparr> else d1
                | None \<Rightarrow> d1);
          d3 = (case reset of
                  Some h \<Rightarrow>
                    if h \<noteq> []
                    then d2\<lparr>serverResetAt :=
                              Some (case parseInt h of
                                      None \<Rightarrow> None
                                    | Some v \<Rightarrow> if v > 10 ^ 10 then Some v
                                               else Some (now + v * 1000))\<rparr>
                    else d2
                | None \<Rightarrow> d2);
          d4 = d3\<lparr>lastServerUpdate := Some now\<rparr>;
          d5 = d4\<lparr>localCalls := filter (\<lambda>t. t > now - 60000) (localCalls d4 @ [now])\<rparr>
      in s\<lparr>rateLimitFile := Some d5\<rparr>)"

text \<open>
  \<open>request\<close>: the request (method, URL, token header, body when there is one) goes to
  \<open>fetch\<close>; an abort (the 30 s timer) becomes a plain
  error, any other rejection is rethrown; a response updates the rate-limit file, then
  429 throws \<open>RateLimitError\<close>, 402 throws \<open>InsufficientCreditsError\<close>, and every other
  status returns the parsed body with the response.
\<close>

definition build_request :: "'w env \<Rightarrow> string \<Rightarrow> string \<Rightarrow> jsval option \<Rightarrow> http_request" where
  "build_request E m endpoint b =
     \<lparr>http_method = m, url = baseUrl E @ endpoint, token_header = apiKey E,
      body = (case b of Some v \<Rightarrow> if truthy v then Some v else None | None \<Rightarrow> None)\<rparr>"

definition request ::
  "'w env \<Rightarrow> string \<Rightarrow> string \<Rightarrow> jsval option \<Rightarrow> (jsval \<times> response, 'w) prog" where
  "request E m endpoint b s =
     (let rq = build_request E m endpoint b;
          (out, w1) = fetch E rq (world s);
          s1 = s\<lparr>world := w1, sent := sent s @ [rq]\<rparr>
      in case out of
           Aborted \<Rightarrow> (Inl (Error ''ShipsGo API request timed out after 30s''), s1)
         | Failed msg \<Rightarrow> (Inl (NetworkError msg), s1)
         | Responded r \<Rightarrow>
             (let s2 = updateRateLimitFromResponse E r s1 in
              if resp_status r = 429
              then (Inl (RateLimitError
                           (case header r ''Retry-After'' of
                              Some h \<Rightarrow> if h \<noteq> [] then Some (parseInt h) else None
                            | None \<Rightarrow> None)), s2)
              else if resp_status r = 402
              then (Inl (InsufficientCreditsError
                           (js_or (prop_opt (json_or_empty r) ''message'')
                                  (JStr ''Insufficient credits''))), s2)
              else (Inr (json_or_empty r, r), s2)))"

section \<open>Retry with backoff\<close>

text \<open>The test that ends the retries: an \<open>ApiError\<close> with a 4xx status other than 429.\<close>

definition is_client_error :: "error \<Rightarrow> bool" where
  "is_client_error e =
     (case e of ApiError st d \<Rightarrow> 400 \<le> st \<and> st < 500 \<and> st \<noteq> 429 | _ \<Rightarrow> False)"

text \<open>
  The delay before the next attempt: \<open>baseDelay * 2^attempt + Math.random() * 500\<close>,
  replaced by \<open>retryAfter * 1000\<close> when the error is a \<open>RateLimitError\<close> whose
  \<open>retryAfter\<close> is truthy (a number other than 0 and \<open>NaN\<close>).
\<close>

definition retryDelay :: "real \<Rightarrow> nat \<Rightarrow> real \<Rightarrow> error \<Rightarrow> real" where
  "retryDelay baseDelay attempt rnd e =
     (let delay = baseDelay * 2 ^ attempt + rnd * 500 in
      case e of
        RateLimitError (Some (Some n)) \<Rightarrow> if n \<noteq> 0 then real_of_int n * 1000 else delay
      | _ \<Rightarrow> delay)"

definition sleep :: "'w env \<Rightarrow> real \<Rightarrow> 'w state \<Rightarrow> 'w state" where
  "sleep E ms s = s\<lparr>world := setTimeout E ms (world s), slept := slept s @ [ms]\<rparr>"

text \<open>
  The loop of \<open>fetchWithRetry\<close>, from \<open>attempt\<close> on, with the \<open>lastError\<close> so far. The
  random number is drawn before the test for \<open>retryAfter\<close>, as in the source.
\<close>

function retry_loop ::
  "'w env \<Rightarrow> ('a, 'w) prog \<Rightarrow> nat \<Rightarrow> real \<Rightarrow> nat \<Rightarrow> error option \<Rightarrow> ('a, 'w) prog" where
  "retry_loop E fn maxRetries baseDelay attempt lastError s =
     (if attempt \<le> maxRetries then
        (case fn s of
           (Inr v, s1) \<Rightarrow> (Inr v, s1)
         | (Inl e, s1) \<Rightarrow>
             if is_client_error e then (Inl e, s1)
             else if attempt = maxRetries then (Inl e, s1)
             else (let (rnd, w1) = Math_random E (world s1);
                       delay = retryDelay baseDelay attempt rnd e
                   in retry_loop E fn maxRetries baseDelay (Suc attempt) (Some e)
                        (sleep E delay (s1\<lparr>world := w1\<rparr>))))
      else (Inl (case lastError of Some e \<Rightarrow> e | None \<Rightarrow> Error ''Max retries exceeded''), s))"
  by pat_completeness auto
termination
  by (relation "measure (\<lambda>(E, fn, maxRetries, baseDelay, attempt, lastError, s).
                            Suc maxRetries - attempt)") auto

declare retry_loop.simps [simp del]

definition fetchWithRetry ::
  "'w env \<Rightarrow> ('a, 'w) prog \<Rightarrow> nat \<Rightarrow> real \<Rightarrow> ('a, 'w) prog" where
  "fetchWithRetry E fn maxRetries baseDelay s = retry_loop E fn maxRetries baseDelay 0 None s"

section \<open>Tracking and query operations\<close>

text \<open>
  The body shared by \<open>trackByBL\<close>, \<open>trackByContainer\<close> and \<open>trackByBooking\<close>, which differ
  in the operation name and the parameter name of the cache key and in the name of the
  query filter. The reference is upper-cased for the key and for the query.
\<close>

definition track_key :: "'w env \<Rightarrow> string \<Rightarrow> string \<Rightarrow> string \<Rightarrow> string" where
  "track_key E opname pname reference =
     createCacheKey E opname [(pname, JStr (toUpperCase E reference))]"

definition track_endpoint :: "'w env \<Rightarrow> string \<Rightarrow> string \<Rightarrow> string" where
  "track_endpoint E qname reference =
     ''/ocean/shipments?'' @ qname @ ''='' @ encodeURIComponent E (toUpperCase E reference)"

text \<open>\<open>data.shipments || data.data || []\<close>\<close>

definition shipments_of :: "jsval \<Rightarrow> jsval" where
  "shipments_of d = js_or (js_or (js_get d ''shipments'') (js_get d ''data'')) (JArr [])"

definition track_producer :: "'w env \<Rightarrow> string \<Rightarrow> string \<Rightarrow> (cached, 'w) prog" where
  "track_producer E qname reference s =
     (case request E ''GET'' (track_endpoint E qname reference) None s of
        (Inl err, s1) \<Rightarrow> (Inl err, s1)
      | (Inr (d, r), s1) \<Rightarrow>
          if \<not> ok r then
            (if resp_status r = 404 then (Inr CNull, s1)
             else (Inl (ApiError (resp_status r) d), s1))
          else if nullish d then (Inl (TypeError ''Cannot read properties of null''), s1)
          else if js_get (shipments_of d) ''length'' = JNum 0 then (Inr CNull, s1)
          else (case shipments_of d of
                  JArr raws \<Rightarrow>
                    (case map_result (mapToShipment E (world s1)) raws of
                       Inl err \<Rightarrow> (Inl err, s1)
                     | Inr ships \<Rightarrow>
                         (Inr (case selectBestMatch E ships of
                                 None \<Rightarrow> CNull
                               | Some best \<Rightarrow> CShipment best), s1))
                | _ \<Rightarrow> (Inl (TypeError ''shipments.map is not a function''), s1)))"

definition track :: "'w env \<Rightarrow> string \<Rightarrow> string \<Rightarrow> string \<Rightarrow> string \<Rightarrow> (cached, 'w) prog" where
  "track E opname pname qname reference s =
     getOrFetch (track_key E opname pname reference) (track_producer E qname reference)
       (HOUR (TTL E) * 2) (cacheDisabled s) s"

definition trackByBL :: "'w env \<Rightarrow> string \<Rightarrow> (cached, 'w) prog" where
  "trackByBL E blNumber = track E ''shipment:bl'' ''bl'' ''bl_number'' blNumber"

definition trackByContainer :: "'w env \<Rightarrow> string \<Rightarrow> (cached, 'w) prog" where
  "trackByContainer E containerNumber =
     track E ''shipment:container'' ''container'' ''container_number'' containerNumber"

definition trackByBooking :: "'w env \<Rightarrow> string \<Rightarrow> (cached, 'w) prog" where
  "trackByBooking E bookingNumber =
     track E ''shipment:booking'' ''booking'' ''booking_number'' bookingNumber"

text \<open>\<open>searchByReference\<close>: the reference goes into the key and the query as it is.\<close>

definition search_key :: "'w env \<Rightarrow> string \<Rightarrow> string" where
  "search_key E reference = createCacheKey E ''search'' [(''ref'', JStr reference)]"

definition search_endpoint :: "'w env \<Rightarrow> string \<Rightarrow> string" where
  "search_endpoint E reference =
     ''/ocean/shipments?reference='' @ encodeURIComponent E reference"

definition search_producer :: "'w env \<Rightarrow> string \<Rightarrow> (cached, 'w) prog" where
  "search_producer E reference s =
     (case request E ''GET'' (search_endpoint E reference) None s of
        (Inl err, s1) \<Rightarrow> (Inl err, s1)
      | (Inr (d, r), s1) \<Rightarrow>
          if \<not> ok r then
            (if resp_status r = 404 then (Inr (CShipments []), s1)
             else (Inl (ApiError (resp_status r) d), s1))
          else if nullish d then (Inl (TypeError ''Cannot read properties of null''), s1)
          else (case shipments_of d of
                  JArr raws \<Rightarrow>
                    (case map_result (mapToShipment E (world s1)) raws of
                       Inl err \<Rightarrow> (Inl err, s1)
                     | Inr ships \<Rightarrow> (Inr (CShipments ships), s1))
                | _ \<Rightarrow> (Inl (TypeError ''shipments.map is not a function''), s1)))"

definition searchByReference :: "'w env \<Rightarrow> string \<Rightarrow> (cached, 'w) prog" where
  "searchByReference E reference s =
     getOrFetch (search_key E reference) (search_producer E reference)
       (FIFTEEN_MINUTES (TTL E)) (cacheDisabled s) s"

text \<open>
  What it is for an operation to serve one cache entry with one query, from a state:
  when the cache is not bypassed and holds a value under the key, the operation returns
  that value and leaves the state as it was (nothing is sent); otherwise it sends the
  \<open>GET\<close> of the endpoint, that request and no other, and stores its result under the key
  with the TTL, an error storing nothing.
\<close>

definition serves_entry ::
  "'w env \<Rightarrow> (cached, 'w) prog \<Rightarrow> string \<Rightarrow> string \<Rightarrow> nat \<Rightarrow> 'w state \<Rightarrow> bool" where
  "serves_entry E operation k endpoint ttl s =
     (case (if cacheDisabled s then None else cache_get (cache s) k) of
        Some v \<Rightarrow> operation s = (Inr v, s)
      | None \<Rightarrow>
          sent (snd (operation s)) = sent s @ [build_request E ''GET'' endpoint None] \<and>
          cache (snd (operation s)) =
            (case fst (operation s) of
               Inr v \<Rightarrow> cache_set (cache s) k v ttl
             | Inl err \<Rightarrow> cache s))"

text \<open>\<open>ListOptions\<close>; \<open>listShipments(options?)\<close> takes \<open>None\<close> for no options at all.\<close>

record list_options =
  opt_status :: "string option"
  opt_limit :: "real option"
  opt_offset :: "real option"
  opt_eta_from :: "string option"
  opt_eta_to :: "string option"
  opt_sort :: "string option"
  opt_order :: "string option"

definition str_field :: "list_options option \<Rightarrow> (list_options \<Rightarrow> string option) \<Rightarrow> jsval" where
  "str_field options f =
     (case options of
        None \<Rightarrow> JUndefined
      | Some opts \<Rightarrow> (case f opts of None \<Rightarrow> JUndefined | Some v \<Rightarrow> JStr v))"

definition num_field :: "list_options option \<Rightarrow> (list_options \<Rightarrow> real option) \<Rightarrow> jsval" where
  "num_field options f =
     (case options of
        None \<Rightarrow> JUndefined
      | Some opts \<Rightarrow> (case f opts of None \<Rightarrow> JUndefined | Some v \<Rightarrow> JNum v))"

definition list_key :: "'w env \<Rightarrow> list_options option \<Rightarrow> string" where
  "list_key E options =
     createCacheKey E ''list:shipments''
       [(''status'', str_field options opt_status),
        (''limit'', num_field options opt_limit),
        (''offset'', num_field options opt_offset),
        (''eta_from'', str_field options opt_eta_from),
        (''eta_to'', str_field options opt_eta_to),
        (''sort'', str_field options opt_sort),
        (''order'', str_field options opt_order)]"

text \<open>\<open>if (v) params.append(name, String(v))\<close>\<close>

definition append_param :: "'w env \<Rightarrow> string \<Rightarrow> jsval \<Rightarrow> (string \<times> string) list" where
  "append_param E name v = (if truthy v then [(name, js_String E v)] else [])"

definition list_endpoint :: "'w env \<Rightarrow> list_options option \<Rightarrow> string" where
  "list_endpoint E options =
     (let params =
            append_param E ''status'' (str_field options opt_status) @
            append_param E ''limit'' (num_field options opt_limit) @
            append_param E ''offset'' (num_field options opt_offset) @
            append_param E ''eta_from'' (str_field options opt_eta_from) @
            append_param E ''eta_to'' (str_field options opt_eta_to) @
            append_param E ''sort'' (str_field options opt_sort) @
            append_param E ''order'' (str_field options opt_order);
          queryString = URLSearchParams_toString E params
      in ''/ocean/shipments'' @ (if queryString \<noteq> [] then ''?'' @ queryString else []))"

text \<open>
  The producer of \<open>listShipments\<close>: any status outside 200..299 throws \<open>ApiError\<close>; there
  is no branch for 404.
\<close>

definition list_producer :: "'w env \<Rightarrow> list_options option \<Rightarrow> (cached, 'w) prog" where
  "list_producer E options s =
     (case request E ''GET'' (list_endpoint E options) None s of
        (Inl err, s1) \<Rightarrow> (Inl err, s1)
      | (Inr (d, r), s1) \<Rightarrow>
          if \<not> ok r then (Inl (ApiError (resp_status r) d), s1)
          else if nullish d then (Inl (TypeError ''Cannot read properties of null''), s1)
          else (case shipments_of d of
                  JArr raws \<Rightarrow>
                    (case map_result (mapToShipment E (world s1)) raws of
                       Inl err \<Rightarrow> (Inl err, s1)
                     | Inr ships \<Rightarrow>
                         (Inr (CListing ships
                                 (js_coalesce (js_get d ''count'')
                                    (js_get (shipments_of d) ''length''))), s1))
                | _ \<Rightarrow> (Inl (TypeError ''shipments.map is not a function''), s1)))"

definition listShipments :: "'w env \<Rightarrow> list_options option \<Rightarrow> (cached, 'w) prog" where
  "listShipments E options s =
     getOrFetch (list_key E options) (list_producer E options)
       (FIFTEEN_MINUTES (TTL E)) (cacheDisabled s) s"

section \<open>Create with deduplication\<close>

text \<open>\<open>ShipmentCreateRequest\<close>; \<open>shipment_type\<close> is always \<open>"ocean"\<close>.\<close>

record create_request =
  req_bl_number :: "string option"
  req_container_number :: "string option"
  req_booking_number :: "string option"

record create_result =
  res_shipment :: cached
  res_source :: string
  res_creditUsed :: bool
  res_warning :: "string option"

text \<open>\<open>if (v)\<close> on an optional string, and the string it then holds.\<close>

definition given :: "string option \<Rightarrow> bool" where
  "given v = (case v of Some x \<Rightarrow> x \<noteq> [] | None \<Rightarrow> False)"

definition str_of :: "string option \<Rightarrow> string" where
  "str_of v = (case v of Some x \<Rightarrow> x | None \<Rightarrow> [])"

definition buildCacheKey :: "'w env \<Rightarrow> create_request \<Rightarrow> string" where
  "buildCacheKey E d =
     (if given (req_bl_number d)
      then createCacheKey E ''shipment:bl'' [(''bl'', JStr (str_of (req_bl_number d)))]
      else if given (req_container_number d)
      then createCacheKey E ''shipment:container''
             [(''container'', JStr (str_of (req_container_number d)))]
      else if given (req_booking_number d)
      then createCacheKey E ''shipment:booking''
             [(''booking'', JStr (str_of (req_booking_number d)))]
      else createCacheKey E ''shipment:unknown'' [])"

text \<open>The flat body of the create request, as \<open>JSON.stringify\<close> sends it.\<close>

definition body_field :: "string \<Rightarrow> string option \<Rightarrow> (string \<times> jsval) list" where
  "body_field name v = (case v of Some x \<Rightarrow> [(name, JStr x)] | None \<Rightarrow> [])"

definition create_body :: "create_request \<Rightarrow> jsval" where
  "create_body d =
     JObj ([(''shipment_type'', JStr ''ocean'')] @
           body_field ''bl_number'' (req_bl_number d) @
           body_field ''container_number'' (req_container_number d) @
           body_field ''booking_number'' (req_booking_number d))"

definition fetchByReference :: "'w env \<Rightarrow> create_request \<Rightarrow> (cached, 'w) prog" where
  "fetchByReference E d s =
     (if given (req_bl_number d) then trackByBL E (str_of (req_bl_number d)) s
      else if given (req_container_number d)
      then trackByContainer E (str_of (req_container_number d)) s
      else if given (req_booking_number d)
      then trackByBooking E (str_of (req_booking_number d)) s
      else (Inr CNull, s))"

text \<open>\<open>error.message\<close>\<close>

definition error_message :: "'w env \<Rightarrow> error \<Rightarrow> string" where
  "error_message E e =
     (case e of
        ApiError st d \<Rightarrow> ''API Error '' @ numberToString E (real st) @ '': '' @ JSON_stringify E d
      | RateLimitError ra \<Rightarrow>
          ''Rate limited'' @
          (case ra of
             Some (Some n) \<Rightarrow>
               if n \<noteq> 0 then '', retry after '' @ numberToString E (real_of_int n) @ ''s'' else []
           | _ \<Rightarrow> [])
      | InsufficientCreditsError m \<Rightarrow> js_String E m
      | NetworkError m \<Rightarrow> m
      | TypeError m \<Rightarrow> m
      | Error m \<Rightarrow> m)"

text \<open>
  The PATCH of the custom reference after a create: its failure is a warning, never an
  error.
\<close>

definition patch_reference ::
  "'w env \<Rightarrow> string \<Rightarrow> string \<Rightarrow> 'w state \<Rightarrow> string option \<times> 'w state" where
  "patch_reference E sid reference s =
     (case request E ''PATCH'' (''/ocean/shipments/'' @ sid)
             (Some (JObj [(''reference'', JStr reference)])) s of
        (Inr (d, pr), s1) \<Rightarrow>
          (if \<not> ok pr
           then Some (''Reference update failed ('' @ numberToString E (real (resp_status pr)) @
                      ''). Shipment created but reference not set.'')
           else None, s1)
      | (Inl e, s1) \<Rightarrow> (Some (''Reference update failed: '' @ error_message E e), s1))"

text \<open>The operation that \<open>createShipment\<close> hands to \<open>fetchWithRetry\<close>.\<close>

definition create_attempt ::
  "'w env \<Rightarrow> create_request \<Rightarrow> string option \<Rightarrow> string \<Rightarrow> (create_result, 'w) prog" where
  "create_attempt E d customReference cacheKey s =
     (case request E ''POST'' ''/ocean/shipments'' (Some (create_body d)) s of
        (Inl err, s1) \<Rightarrow> (Inl err, s1)
      | (Inr (responseData, r), s1) \<Rightarrow>
          if resp_status r = 200 \<or> resp_status r = 201 then
            (case mapToShipment E (world s1) responseData of
               Inl err \<Rightarrow> (Inl err, s1)
             | Inr sh \<Rightarrow>
                 (let (warning, s2) =
                        (if given customReference \<and> shipment_id sh \<noteq> []
                         then patch_reference E (shipment_id sh) (str_of customReference) s1
                         else (None, s1))
                  in (Inr \<lparr>res_shipment = CShipment sh, res_source = ''created'',
                            res_creditUsed = True, res_warning = warning\<rparr>,
                      s2\<lparr>cache := cache_set (cache s2) cacheKey (CShipment sh)
                                    (getCacheTTL E (CShipment sh))\<rparr>)))
          else if resp_status r = 409 then
            (case fetchByReference E d s1 of
               (Inl err, s2) \<Rightarrow> (Inl err, s2)
             | (Inr existing, s2) \<Rightarrow>
                 if cached_truthy existing
                 then (Inr \<lparr>res_shipment = existing, res_source = ''existing'',
                            res_creditUsed = False, res_warning = None\<rparr>,
                       s2\<lparr>cache := cache_set (cache s2) cacheKey existing
                                     (getCacheTTL E existing)\<rparr>)
                 else (Inl (Error ''409 returned but shipment not found''), s2))
          else (Inl (ApiError (resp_status r) responseData), s1))"

text \<open>
  \<open>createShipment\<close>: a hit on a value that is truthy and has no truthy \<open>discarded_at\<close> is
  returned at once; otherwise the create runs under \<open>fetchWithRetry\<close> with its default
  options, \<open>maxRetries = 3\<close> and \<open>baseDelay = 1000\<close>.
\<close>

definition createShipment ::
  "'w env \<Rightarrow> create_request \<Rightarrow> string option \<Rightarrow> (create_result, 'w) prog" where
  "createShipment E d customReference s =
     (let cacheKey = buildCacheKey E d;
          cachedResult = cache_get (cache s) cacheKey
      in if (case cachedResult of
               Some c \<Rightarrow> cached_truthy c \<and> \<not> truthy (discarded_prop c)
             | None \<Rightarrow> False)
         then (Inr \<lparr>res_shipment = (case cachedResult of Some c \<Rightarrow> c | None \<Rightarrow> CNull),
                    res_source = ''cache'', res_creditUsed = False, res_warning = None\<rparr>, s)
         else fetchWithRetry E (create_attempt E d customReference cacheKey) 3 1000 s)"

section \<open>Sharing link\<close>

definition sharing_key :: "'w env \<Rightarrow> string \<Rightarrow> string" where
  "sharing_key E sid = createCacheKey E ''sharing-link'' [(''id'', JStr sid)]"

text \<open>
  \<open>getSharingLink\<close>: a truthy cached value is returned; else the raw shipment is fetched
  (no retry, no \<open>getOrFetch\<close>), 404 gives \<open>null\<close>, the token is read from
  \<open>(data.shipment || data).tokens?.map\<close>, and only a result with a token is cached.
\<close>

definition getSharingLink :: "'w env \<Rightarrow> string \<Rightarrow> (cached, 'w) prog" where
  "getSharingLink E sid s =
     (let cacheKey = sharing_key E sid;
          cachedResult = cache_get (cache s) cacheKey
      in if (case cachedResult of Some c \<Rightarrow> cached_truthy c | None \<Rightarrow> False)
         then (Inr (case cachedResult of Some c \<Rightarrow> c | None \<Rightarrow> CNull), s)
         else
          (case request E ''GET'' (''/ocean/shipments/'' @ sid) None s of
             (Inl err, s1) \<Rightarrow> (Inl err, s1)
           | (Inr (d, r), s1) \<Rightarrow>
               if \<not> ok r then
                 (if resp_status r = 404 then (Inr CNull, s1)
                  else (Inl (ApiError (resp_status r) d), s1))
               else if nullish d then (Inl (TypeError ''Cannot read properties of null''), s1)
               else
                 (let shipmentData = js_or (js_get d ''shipment'') d;
                      tokens = js_get shipmentData ''tokens'';
                      mapToken = prop_opt tokens ''map''
                  in if \<not> truthy mapToken then (Inr CNull, s1)
                     else
                      (let route = js_get shipmentData ''route'';
                           pol = prop_opt route ''port_of_loading'';
                           pod = prop_opt route ''port_of_discharge'';
                           result =
                             \<lparr>link_url = ''https://map.shipsgo.com/ocean/shipments/'' @ sid @
                                          ''?token='' @ js_String E mapToken,
                              link_shipmentId = sid,
                              link_containerNumber = js_get shipmentData ''container_number'',
                              link_status = js_or (js_get shipmentData ''status'') (JStr ''UNKNOWN''),
                              link_pol = prop_opt (prop_opt pol ''location'') ''name'',
                              link_pod = prop_opt (prop_opt pod ''location'') ''name'',
                              link_eta = prop_opt pod ''date_of_discharge''\<rparr>
                       in (Inr (CLink result),
                           s1\<lparr>cache := cache_set (cache s1) cacheKey (CLink result)
                                         (DAY (TTL E))\<rparr>)))))"

section \<open>A scripted platform\<close>

text \<open>
  A platform on which the operations can be evaluated: the world is the list of the
  outcomes that \<open>fetch\<close> will give, in order (an exhausted script rejects); the clock
  stands still; \<open>Math.random()\<close> gives 1/4; upper-casing, number formatting and URI
  encoding are those of ASCII strings and natural numbers; a date is valid when it is
  given as a number of milliseconds; a cache key is the operation name followed by its
  parameters.
\<close>

definition hex_chars :: string where
  "hex_chars = ''0123456789ABCDEF''"

definition unreserved_chars :: string where
  "unreserved_chars = upper_letters @ lower_letters @ digit_chars @ [CHR 0x2D] @ ''_.!~*'' @
     [CHR 0x27] @ ''()''"

definition percent_encode_char :: "char \<Rightarrow> string" where
  "percent_encode_char c =
     (if c \<in> set unreserved_chars then [c]
      else [CHR ''%'', hex_chars ! (of_char c div 16), hex_chars ! (of_char c mod 16)])"

definition percent_encode :: "string \<Rightarrow> string" where
  "percent_encode s = concat (map percent_encode_char s)"

fun show_nat :: "nat \<Rightarrow> string" where
  "show_nat n =
     (if n < 10 then [digit_chars ! n] else show_nat (n div 10) @ [digit_chars ! (n mod 10)])"

definition show_number :: "real \<Rightarrow> string" where
  "show_number r = (if r < 0 then [CHR 0x2D] else []) @ show_nat (nat \<lfloor>\<bar>r\<bar>\<rfloor>)"

fun join_with :: "string \<Rightarrow> string list \<Rightarrow> string" where
  "join_with sep [] = []"
| "join_with sep [x] = x"
| "join_with sep (x # y # ys) = x @ sep @ join_with sep (y # ys)"

definition scripted_key :: "string \<Rightarrow> (string \<times> jsval) list \<Rightarrow> string" where
  "scripted_key opname params =
     opname @ concat (map (\<lambda>(k, v). CHR '':'' # k @ CHR ''='' #
                              (case v of JStr s \<Rightarrow> s | JNum r \<Rightarrow> show_number r | _ \<Rightarrow> [])) params)"

definition scripted_fetch ::
  "http_request \<Rightarrow> fetch_outcome list \<Rightarrow> fetch_outcome \<times> fetch_outcome list" where
  "scripted_fetch rq w = (case w of [] \<Rightarrow> (Failed ''fetch failed'', []) | out # rest \<Rightarrow> (out, rest))"

definition scripted :: "(fetch_outcome list) env" where
  "scripted =
     \<lparr>toUpperCase = ascii_upper,
      numberToString = show_number,
      JSON_stringify = (\<lambda>v. case v of JStr s \<Rightarrow> s | _ \<Rightarrow> ''{}''),
      Date_getTime = (\<lambda>v. case v of JNum r \<Rightarrow> Some \<lfloor>r\<rfloor> | _ \<Rightarrow> None),
      createCacheKey = scripted_key,
      TTL = spec_TTL,
      encodeURIComponent = percent_encode,
      URLSearchParams_toString =
        (\<lambda>ps. join_with ''&'' (map (\<lambda>(k, v). percent_encode k @ ''='' @ percent_encode v) ps)),
      fetch = scripted_fetch,
      Date_now = (\<lambda>w. 1700000000000),
      Date_toISOString = (\<lambda>w. ''2023-11-14T22:13:20.000Z''),
      Math_random = (\<lambda>w. (1 / 4, w)),
      setTimeout = (\<lambda>ms w. w),
      baseUrl = ''https://api.shipsgo.com/v2'',
      apiKey = ''demo-key''\<rparr>"

definition initial :: "fetch_outcome list \<Rightarrow> (fetch_outcome list) state" where
  "initial script =
     \<lparr>world = script, cache = \<lparr>entries = [], enabled = True\<rparr>, cacheDisabled = False,
      rateLimitFile = None, sent = [], slept = []\<rparr>"

text \<open>A response with a status, no headers and a body.\<close>

definition respond :: "nat \<Rightarrow> jsval \<Rightarrow> fetch_outcome" where
  "respond st b = Responded \<lparr>resp_status = st, resp_headers = [], resp_json = Some b\<rparr>"

text \<open>A shipment with an identifier, a status, a creation time and a discard mark only.\<close>

definition plain_shipment :: "string \<Rightarrow> string \<Rightarrow> jsval \<Rightarrow> jsval option \<Rightarrow> shipment" where
  "plain_shipment sid st created discarded =
     \<lparr>shipment_id = sid, requestId = None, status = st, container_number = JUndefined,
      bl_number = JUndefined, booking_number = JUndefined, carrier = JUndefined,
      vessel = None, pol = None, pod = None, milestones = None, coordinates = None,
      created_at = created, updated_at = created, discarded_at = discarded,
      custom_reference = JUndefined\<rparr>"

text \<open>A create request for one bill of lading.\<close>

definition bl_request :: create_request where
  "bl_request = \<lparr>req_bl_number = Some ''MAEU123456789'', req_container_number = None,
                  req_booking_number = None\<rparr>"

text \<open>The scripted platform with one entry in the cache, under the key of \<open>bl_request\<close>.\<close>

definition cached_state :: "cached \<Rightarrow> fetch_outcome list \<Rightarrow> (fetch_outcome list) state" where
  "cached_state c script =
     (initial script)\<lparr>cache := \<lparr>entries = [(''shipment:bl:bl=MAEU123456789'', c, 7200)],
                                 enabled = True\<rparr>\<rparr>"

section \<open>Properties of the cache TTL\<close>

text \<open>
  C2 (amended). The TTL of an ARRIVED shipment is twice the TTL of a PENDING one, and,
  when \<open>TTL.DAY\<close> is 24 times \<open>TTL.HOUR\<close>, the TTL of a DELIVERED shipment is 12 times
  (not 6 times) the TTL of a PENDING one.
\<close>

theorem getCacheTTL_ratios:
  assumes "DAY (TTL E) = 24 * HOUR (TTL E)"
    and "status a = ''ARRIVED''" and "status p = ''PENDING''" and "status d = ''DELIVERED''"
  shows "getCacheTTL E (CShipment a) = 2 * getCacheTTL E (CShipment p) \<and>
         getCacheTTL E (CShipment d) = 12 * getCacheTTL E (CShipment p)"
  using assms by (simp add: getCacheTTL_def status_prop_def)

theorem getCacheTTL_ratios_witness:
  "getCacheTTL scripted (CShipment (plain_shipment ''1'' ''ARRIVED'' JUndefined None)) =
     2 * getCacheTTL scripted (CShipment (plain_shipment ''2'' ''PENDING'' JUndefined None)) \<and>
   getCacheTTL scripted (CShipment (plain_shipment ''3'' ''DELIVERED'' JUndefined None)) =
     12 * getCacheTTL scripted (CShipment (plain_shipment ''2'' ''PENDING'' JUndefined None)) \<and>
   getCacheTTL scripted (CShipment (plain_shipment ''2'' ''PENDING'' JUndefined None)) = 7200"
proof -
  have t: "DAY (TTL scripted) = 24 * HOUR (TTL scripted)"
    by (simp add: scripted_def spec_TTL_def)
  have p: "getCacheTTL scripted (CShipment (plain_shipment ''2'' ''PENDING'' JUndefined None))
           = 7200"
    by (simp add: getCacheTTL_def status_prop_def plain_shipment_def scripted_def spec_TTL_def)
  show ?thesis
    using getCacheTTL_ratios [OF t, of "plain_shipment ''1'' ''ARRIVED'' JUndefined None"
        "plain_shipment ''2'' ''PENDING'' JUndefined None"
        "plain_shipment ''3'' ''DELIVERED'' JUndefined None"] p
    by (simp add: plain_shipment_def)
qed

text \<open>
  With the TTL table of section 4.3 a DELIVERED shipment is cached for 86400 s and a
  PENDING one for 7200 s: the ratio is not 6.
\<close>

theorem getCacheTTL_delivered_counterexample:
  "getCacheTTL scripted (CShipment (plain_shipment ''3'' ''DELIVERED'' JUndefined None)) \<noteq>
     6 * getCacheTTL scripted (CShipment (plain_shipment ''2'' ''PENDING'' JUndefined None))"
  by (simp add: getCacheTTL_def status_prop_def plain_shipment_def scripted_def spec_TTL_def)

section \<open>Properties of the status mapping\<close>

lemma statusMap_spec:
  "map_of statusMap n =
     (case map_of spec_synonyms n of
        Some v \<Rightarrow> Some v
      | None \<Rightarrow> if n \<in> set status_values then Some n else None)"
  by (simp add: statusMap_def spec_synonyms_def status_values_def)

lemma statusMap_nonempty: "map_of statusMap n = Some v \<Longrightarrow> v \<noteq> []"
  by (auto simp: statusMap_def split: if_splits)

lemma replace_letters:
  assumes "set t \<inter> set lower_letters = {}"
  shows "map (\<lambda>c. if c \<in> set upper_letters \<or> c \<in> set lower_letters \<or> c = CHR ''_''
                   then c else CHR ''_'') t = replace_non_status_chars t"
  using assms unfolding replace_non_status_chars_def by (induction t) auto

lemma spec_mapStatus_in_values: "spec_mapStatus up s \<in> set status_values"
  by (auto simp: spec_mapStatus_def Let_def spec_synonyms_def status_values_def
      split: option.splits if_splits)

lemma ascii_upper_no_lower: "set (ascii_upper s) \<inter> set lower_letters = {}"
  by (induction s)
     (auto simp: ascii_upper_def lower_letters_def upper_letters_def
       split: option.splits if_splits)

text \<open>
  C6. On an upper-casing that leaves no lower-case letter and maps the empty string to
  itself, \<open>mapStatus\<close> of a string is the specification's mapping (upper-case, every
  character that is no letter or underscore becomes an underscore, synonym table,
  anything unrecognized becomes PENDING); its result is one of the six status values;
  an absent status maps to PENDING.
\<close>

theorem mapStatus_spec:
  assumes up: "\<And>t. set (toUpperCase E t) \<inter> set lower_letters = {}"
    and empty: "toUpperCase E [] = []"
  shows "mapStatus E (JStr s) = Inr (spec_mapStatus (toUpperCase E) s) \<and>
         spec_mapStatus (toUpperCase E) s \<in> set status_values \<and>
         mapStatus E JUndefined = Inr ''PENDING'' \<and> mapStatus E JNull = Inr ''PENDING''"
proof -
  have n: "map (\<lambda>c. if c \<in> set upper_letters \<or> c \<in> set lower_letters \<or> c = CHR ''_''
                     then c else CHR ''_'') (toUpperCase E s)
           = replace_non_status_chars (toUpperCase E s)"
    by (rule replace_letters) (rule up)
  have sp: "spec_mapStatus (toUpperCase E) s =
      (case map_of statusMap (replace_non_status_chars (toUpperCase E s)) of
         Some v \<Rightarrow> v | None \<Rightarrow> ''PENDING'')"
    unfolding spec_mapStatus_def n Let_def statusMap_spec
    by (simp split: option.splits)
  have e: "spec_mapStatus (toUpperCase E) [] = ''PENDING''"
    by (simp add: spec_mapStatus_def empty spec_synonyms_def status_values_def)
  have m: "mapStatus E (JStr s) = Inr (spec_mapStatus (toUpperCase E) s)"
  proof (cases "s = []")
    case True
    then show ?thesis using e by (simp add: mapStatus_def)
  next
    case False
    then show ?thesis
      unfolding sp
      by (auto simp: mapStatus_def Let_def dest: statusMap_nonempty split: option.splits)
  qed
  show ?thesis
    using m spec_mapStatus_in_values [of "toUpperCase E" s] by (simp add: mapStatus_def)
qed

theorem mapStatus_spec_witness:
  "mapStatus scripted (JStr ''In transit'') = Inr ''EN_ROUTE'' \<and>
   mapStatus scripted (JStr ''in-progress'') = Inr ''EN_ROUTE'' \<and>
   mapStatus scripted (JStr ''Discharged'') = Inr ''ARRIVED'' \<and>
   mapStatus scripted (JStr ''on hold'') = Inr ''PENDING'' \<and>
   spec_mapStatus (toUpperCase scripted) ''In transit'' = ''EN_ROUTE''"
proof -
  have up: "\<And>t. set (toUpperCase scripted t) \<inter> set lower_letters = {}"
    by (simp add: scripted_def ascii_upper_no_lower)
  have empty: "toUpperCase scripted [] = []"
    by (simp add: scripted_def ascii_upper_def)
  have v: "spec_mapStatus (toUpperCase scripted) ''In transit'' = ''EN_ROUTE''"
    by (simp add: spec_mapStatus_def scripted_def ascii_upper_def lower_letters_def
        upper_letters_def spec_synonyms_def)
  have a: "mapStatus scripted (JStr ''in-progress'') = Inr ''EN_ROUTE''"
    by (simp add: mapStatus_def scripted_def ascii_upper_def lower_letters_def
        upper_letters_def statusMap_def replace_non_status_chars_def)
  have b: "mapStatus scripted (JStr ''Discharged'') = Inr ''ARRIVED''"
    by (simp add: mapStatus_def scripted_def ascii_upper_def lower_letters_def
        upper_letters_def statusMap_def replace_non_status_chars_def)
  have c: "mapStatus scripted (JStr ''on hold'') = Inr ''PENDING''"
    by (simp add: mapStatus_def scripted_def ascii_upper_def lower_letters_def
        upper_letters_def statusMap_def replace_non_status_chars_def)
  show ?thesis
    using mapStatus_spec [of scripted "''In transit''", OF up empty] v a b c by simp
qed

section \<open>Properties of the best-match selection\<close>

lemma js_sort_Nil: "js_sort cmp [] = []"
  by (simp add: js_sort_def)

lemma js_sort_Cons: "js_sort cmp (x # xs) = sort_insert cmp x (js_sort cmp xs)"
  by (simp add: js_sort_def)

lemma sort_insert_not_Nil: "sort_insert cmp x ys \<noteq> []"
  by (cases ys) simp_all

lemma set_sort_insert: "set (sort_insert cmp x ys) = insert x (set ys)"
  by (induction ys) auto

lemma set_js_sort: "set (js_sort cmp xs) = set xs"
  by (induction xs) (simp_all add: js_sort_Nil js_sort_Cons set_sort_insert)

lemma js_sort_Nil_iff: "js_sort cmp xs = [] \<longleftrightarrow> xs = []"
  by (cases xs) (simp_all add: js_sort_Nil js_sort_Cons sort_insert_not_Nil)

lemma hd_sort_insert:
  "hd (sort_insert cmp x ys) = (if ys = [] \<or> comes_first cmp x (hd ys) then x else hd ys)"
  by (cases ys) simp_all

lemma hd_js_sort_least:
  assumes "xs \<noteq> []"
    and total: "\<And>a b. a \<in> set xs \<Longrightarrow> b \<in> set xs \<Longrightarrow> comes_first cmp a b \<or> comes_first cmp b a"
    and trans: "\<And>a b c. a \<in> set xs \<Longrightarrow> b \<in> set xs \<Longrightarrow> c \<in> set xs \<Longrightarrow>
                  comes_first cmp a b \<Longrightarrow> comes_first cmp b c \<Longrightarrow> comes_first cmp a c"
  shows "hd (js_sort cmp xs) \<in> set xs \<and> (\<forall>y\<in>set xs. comes_first cmp (hd (js_sort cmp xs)) y)"
  using assms
proof (induction xs)
  case Nil
  from Nil.prems(1) show ?case by simp
next
  case (Cons x xs)
  have refl: "comes_first cmp x x" using Cons.prems(2) [of x x] by simp
  show ?case
  proof (cases "xs = []")
    case True
    then show ?thesis using refl by (simp add: js_sort_Nil js_sort_Cons)
  next
    case False
    let ?h = "hd (js_sort cmp xs)"
    have t: "comes_first cmp a b \<or> comes_first cmp b a" if "a \<in> set xs" "b \<in> set xs" for a b
      using Cons.prems(2) [of a b] that by simp
    have tr: "comes_first cmp a c"
      if "a \<in> set xs" "b \<in> set xs" "c \<in> set xs" "comes_first cmp a b" "comes_first cmp b c"
      for a b c
      using Cons.prems(3) [of a b c] that by simp
    have ih: "?h \<in> set xs \<and> (\<forall>y\<in>set xs. comes_first cmp ?h y)"
      by (rule Cons.IH [OF False t tr])
    have ne: "js_sort cmp xs \<noteq> []" using False by (simp add: js_sort_Nil_iff)
    show ?thesis
    proof (cases "comes_first cmp x ?h")
      case True
      then have h: "hd (js_sort cmp (x # xs)) = x"
        by (simp add: js_sort_Cons hd_sort_insert)
      have "comes_first cmp x y" if "y \<in> set xs" for y
      proof -
        have "comes_first cmp ?h y" using ih that by blast
        then show ?thesis using Cons.prems(3) [of x ?h y] True ih that by simp
      qed
      then show ?thesis using h refl by simp
    next
      case F: False
      then have h: "hd (js_sort cmp (x # xs)) = ?h"
        using ne by (simp add: js_sort_Cons hd_sort_insert)
      have "comes_first cmp ?h x" using Cons.prems(2) [of x ?h] F ih by simp
      then show ?thesis using h ih by simp
    qed
  qed
qed

lemma hd_js_sort_first:
  assumes "xs \<noteq> []"
  shows "\<exists>pre post. xs = pre @ hd (js_sort cmp xs) # post \<and>
           (\<forall>x\<in>set pre. \<not> comes_first cmp x (hd (js_sort cmp xs)))"
  using assms
proof (induction xs)
  case Nil
  then show ?case by simp
next
  case (Cons x xs)
  show ?case
  proof (cases "xs = []")
    case True
    then have "hd (js_sort cmp (x # xs)) = x" by (simp add: js_sort_Nil js_sort_Cons)
    then have "x # xs = [] @ hd (js_sort cmp (x # xs)) # xs" by simp
    then show ?thesis by (metis empty_iff list.set(1))
  next
    case False
    let ?h = "hd (js_sort cmp xs)"
    obtain pre post where sp: "xs = pre @ ?h # post"
      and before: "\<forall>z\<in>set pre. \<not> comes_first cmp z ?h"
      using Cons.IH [OF False] by blast
    have ne: "js_sort cmp xs \<noteq> []" using False by (simp add: js_sort_Nil_iff)
    show ?thesis
    proof (cases "comes_first cmp x ?h")
      case True
      then have "hd (js_sort cmp (x # xs)) = x"
        by (simp add: js_sort_Cons hd_sort_insert)
      then have "x # xs = [] @ hd (js_sort cmp (x # xs)) # xs" by simp
      then show ?thesis by (metis empty_iff list.set(1))
    next
      case F: False
      then have h: "hd (js_sort cmp (x # xs)) = ?h"
        using ne by (simp add: js_sort_Cons hd_sort_insert)
      have "x # xs = (x # pre) @ ?h # post" using sp by simp
      moreover have "\<forall>z\<in>set (x # pre). \<not> comes_first cmp z ?h" using F before by simp
      ultimately show ?thesis unfolding h by blast
    qed
  qed
qed

lemma find_first:
  assumes "P h" and "\<forall>x\<in>set pre. \<not> P x"
  shows "find P (pre @ h # post) = Some h"
  using assms by (induction pre) simp_all

lemma statusRank_spec:
  assumes "status s \<notin> set object_prototype_members"
  shows "statusRank s = Some (int (spec_priority (status s)))"
  using assms by (simp add: statusRank_def statusOrder_def spec_priority_def)

lemma status_values_not_members:
  "st \<in> set status_values \<Longrightarrow> st \<notin> set object_prototype_members"
  by (auto simp: status_values_def object_prototype_members_def)

lemma comes_first_compare:
  assumes "orderable E a" "orderable E b"
  shows "comes_first (compareShipments E) a b \<longleftrightarrow> spec_precedes E a b"
  using assms statusRank_spec [of a] statusRank_spec [of b]
  by (auto simp: orderable_def comes_first_def compareShipments_def spec_precedes_def Let_def
      split: option.splits)

lemma selectBestMatch_eq:
  assumes "shipments \<noteq> []"
  shows "selectBestMatch E shipments =
     Some (if filter not_discarded shipments = [] then hd shipments
           else hd (js_sort (compareShipments E) (filter not_discarded shipments)))"
proof (cases shipments)
  case Nil
  then show ?thesis using assms by simp
next
  case (Cons s rest)
  show ?thesis
  proof (cases rest)
    case Nil
    then show ?thesis using Cons by (simp add: selectBestMatch_def js_sort_def)
  next
    case (Cons r rest')
    then show ?thesis using \<open>shipments = s # rest\<close>
      by (cases "js_sort (compareShipments E) (filter not_discarded shipments)")
         (auto simp: selectBestMatch_def js_sort_Nil_iff js_sort_Nil)
  qed
qed

lemma best_is_least:
  assumes valid: "\<forall>s\<in>set shipments. not_discarded s \<longrightarrow> orderable E s"
    and some: "filter not_discarded shipments \<noteq> []"
  shows "\<exists>pre post.
           filter not_discarded shipments =
             pre @ hd (js_sort (compareShipments E) (filter not_discarded shipments)) # post \<and>
           (\<forall>y\<in>set (filter not_discarded shipments).
              spec_precedes E
                (hd (js_sort (compareShipments E) (filter not_discarded shipments))) y) \<and>
           (\<forall>x\<in>set pre.
              \<not> spec_precedes E x
                  (hd (js_sort (compareShipments E) (filter not_discarded shipments))))"
proof -
  let ?nd = "filter not_discarded shipments"
  let ?h = "hd (js_sort (compareShipments E) ?nd)"
  have v: "orderable E a" if "a \<in> set ?nd" for a
    using valid that by auto
  have cf: "comes_first (compareShipments E) a b \<longleftrightarrow> spec_precedes E a b"
    if "a \<in> set ?nd" "b \<in> set ?nd" for a b
    using comes_first_compare v that by blast
  have total: "comes_first (compareShipments E) a b \<or> comes_first (compareShipments E) b a"
    if "a \<in> set ?nd" "b \<in> set ?nd" for a b
    using v [OF that(1)] v [OF that(2)] unfolding cf [OF that] cf [OF that(2) that(1)]
    by (auto simp: spec_precedes_def orderable_def)
  have trans: "comes_first (compareShipments E) a c"
    if "a \<in> set ?nd" "b \<in> set ?nd" "c \<in> set ?nd"
      "comes_first (compareShipments E) a b" "comes_first (compareShipments E) b c" for a b c
    using that(4,5) v [OF that(1)] v [OF that(2)] v [OF that(3)]
    unfolding cf [OF that(1,2)] cf [OF that(2,3)] cf [OF that(1,3)]
    by (auto simp: spec_precedes_def orderable_def)
  have least: "?h \<in> set ?nd \<and> (\<forall>y\<in>set ?nd. comes_first (compareShipments E) ?h y)"
  proof (rule hd_js_sort_least [OF some])
    fix a b assume "a \<in> set ?nd" "b \<in> set ?nd"
    then show "comes_first (compareShipments E) a b \<or> comes_first (compareShipments E) b a"
      by (rule total)
  next
    fix a b c
    assume "a \<in> set ?nd" "b \<in> set ?nd" "c \<in> set ?nd"
      "comes_first (compareShipments E) a b" "comes_first (compareShipments E) b c"
    then show "comes_first (compareShipments E) a c" by (rule trans)
  qed
  obtain pre post where sp: "?nd = pre @ ?h # post"
    and before: "\<forall>x\<in>set pre. \<not> comes_first (compareShipments E) x ?h"
    using hd_js_sort_first [OF some, of "compareShipments E"] by blast
  have pre_in: "x \<in> set ?nd" if "x \<in> set pre" for x
  proof -
    have "x \<in> set (pre @ ?h # post)" using that by simp
    then show ?thesis using sp by simp
  qed
  have a: "\<forall>y\<in>set ?nd. spec_precedes E ?h y"
    using least cf by blast
  have b: "\<forall>x\<in>set pre. \<not> spec_precedes E x ?h"
    using before cf pre_in least by blast
  show ?thesis using sp a b by blast
qed

lemma mapStatus_known:
  assumes "mapStatus E st = Inr v"
  shows "v \<in> set status_values"
  using assms
  by (auto simp: mapStatus_def Let_def statusMap_def status_values_def
      split: if_splits jsval.splits option.splits)

lemma mapped_shipment_status:
  assumes "mapToShipment E w raw = Inr s"
  shows "status s \<in> set status_values \<and> status s \<notin> set object_prototype_members"
proof -
  obtain st where st: "mapStatus E (js_or (js_get raw ''status'') (js_get raw ''shippingStatus'')) = Inr st"
    and eq: "status s = st"
    using assms by (auto simp: mapToShipment_def split: if_splits sum.splits)
  have "st \<in> set status_values" using st by (rule mapStatus_known)
  then show ?thesis using eq status_values_not_members by simp
qed

text \<open>
  C4 (amended). For a non-empty list the selector returns one shipment of the list, never
  \<open>null\<close>. When at least one candidate is not discarded the result is not discarded;
  when every candidate is discarded the result is the first entry of the input, as it
  is. When at least one candidate is not discarded and the candidates that are not
  discarded are orderable (valid creation dates, statuses that name no member of
  \<open>Object.prototype\<close>), the result is the head of the specification's sort, ties keeping
  the order of the input: it is the result of \<open>spec_selectBestMatch\<close>, it precedes
  every candidate that is not discarded, by status priority and then by the latest
  creation time, and no such candidate that stands before it in the input precedes it.
  Then every reordering of the list gives the same shipment, provided that no two
  different candidates that are not discarded tie in both status priority and creation
  time.
\<close>

theorem selectBestMatch_amended:
  assumes ne: "shipments \<noteq> []"
  shows "\<exists>best. selectBestMatch E shipments = Some best \<and> best \<in> set shipments \<and>
      (if \<exists>s\<in>set shipments. not_discarded s then not_discarded best
       else best = hd shipments) \<and>
      ((\<exists>s\<in>set shipments. not_discarded s) \<and>
       (\<forall>s\<in>set shipments. not_discarded s \<longrightarrow> orderable E s) \<longrightarrow>
         spec_selectBestMatch E shipments = Some best \<and>
         (\<forall>s\<in>set shipments. not_discarded s \<longrightarrow> spec_precedes E best s) \<and>
         (\<exists>pre post. filter not_discarded shipments = pre @ best # post \<and>
                      (\<forall>x\<in>set pre. \<not> spec_precedes E x best)) \<and>
         (\<forall>other. mset other = mset shipments \<and>
              (\<forall>a\<in>set shipments. \<forall>b\<in>set shipments.
                  not_discarded a \<and> not_discarded b \<and> spec_precedes E a b \<and>
                  spec_precedes E b a \<longrightarrow> a = b)
            \<longrightarrow> selectBestMatch E other = Some best))"
proof (cases "filter not_discarded shipments = []")
  case True
  then have none: "\<not> (\<exists>s\<in>set shipments. not_discarded s)"
    by (simp add: filter_empty_conv)
  have "selectBestMatch E shipments = Some (hd shipments)"
    using selectBestMatch_eq [OF ne, of E] True by simp
  then show ?thesis using none ne by simp
next
  case False
  let ?nd = "filter not_discarded shipments"
  let ?best = "hd (js_sort (compareShipments E) ?nd)"
  have sel: "selectBestMatch E shipments = Some ?best"
    using selectBestMatch_eq [OF ne, of E] False by simp
  have "?best \<in> set (js_sort (compareShipments E) ?nd)"
    using False by (simp add: js_sort_Nil_iff)
  then have mem: "?best \<in> set ?nd" by (simp only: set_js_sort)
  have some: "\<exists>s\<in>set shipments. not_discarded s"
    using False by (simp add: filter_empty_conv)
  have ordered: "spec_selectBestMatch E shipments = Some ?best \<and>
         (\<forall>s\<in>set shipments. not_discarded s \<longrightarrow> spec_precedes E ?best s) \<and>
         (\<exists>pre post. ?nd = pre @ ?best # post \<and> (\<forall>x\<in>set pre. \<not> spec_precedes E x ?best)) \<and>
         (\<forall>other. mset other = mset shipments \<and>
              (\<forall>a\<in>set shipments. \<forall>b\<in>set shipments.
                  not_discarded a \<and> not_discarded b \<and> spec_precedes E a b \<and>
                  spec_precedes E b a \<longrightarrow> a = b)
            \<longrightarrow> selectBestMatch E other = Some ?best)"
    if valid: "\<forall>s\<in>set shipments. not_discarded s \<longrightarrow> orderable E s"
  proof -
    obtain pre post where sp: "?nd = pre @ ?best # post"
      and least: "\<forall>y\<in>set ?nd. spec_precedes E ?best y"
      and before: "\<forall>x\<in>set pre. \<not> spec_precedes E x ?best"
      using best_is_least [OF valid False] by blast
    have all: "list_all (spec_precedes E ?best) ?nd"
      using least by (simp add: list_all_iff)
    have nall: "\<forall>x\<in>set pre. \<not> list_all (spec_precedes E x) ?nd"
      using before mem by (auto simp: list_all_iff)
    have "find (\<lambda>x. list_all (spec_precedes E x) ?nd) (pre @ ?best # post) = Some ?best"
      by (rule find_first [OF all nall])
    then have spec: "spec_selectBestMatch E shipments = Some ?best"
      using False sp by (simp add: spec_selectBestMatch_def)
    have reorder: "selectBestMatch E other = Some ?best"
      if m: "mset other = mset shipments"
        and d: "\<forall>a\<in>set shipments. \<forall>b\<in>set shipments.
                 not_discarded a \<and> not_discarded b \<and> spec_precedes E a b \<and>
                 spec_precedes E b a \<longrightarrow> a = b"
      for other
    proof -
      have st: "set other = set shipments" using m by (rule mset_eq_setD)
      have one: "other \<noteq> []" using st ne by auto
      let ?nd' = "filter not_discarded other"
      let ?b' = "hd (js_sort (compareShipments E) ?nd')"
      have snd: "set ?nd' = set ?nd" using st by simp
      have F': "?nd' \<noteq> []" using snd False by (metis set_empty)
      have valid': "\<forall>s\<in>set other. not_discarded s \<longrightarrow> orderable E s"
        using valid st by simp
      have sel': "selectBestMatch E other = Some ?b'"
        using selectBestMatch_eq [OF one, of E] F' by simp
      have "?b' \<in> set (js_sort (compareShipments E) ?nd')"
        using F' by (simp add: js_sort_Nil_iff)
      then have mem': "?b' \<in> set ?nd'" by (simp only: set_js_sort)
      have least': "\<forall>y\<in>set ?nd'. spec_precedes E ?b' y"
        using best_is_least [OF valid' F'] by blast
      have p1: "spec_precedes E ?best ?b'" using least mem' snd by blast
      have p2: "spec_precedes E ?b' ?best" using least' mem snd by blast
      have m1: "?best \<in> set shipments \<and> not_discarded ?best" using mem by simp
      have m2: "?b' \<in> set shipments \<and> not_discarded ?b'" using mem' snd by auto
      have "?best = ?b'" using d m1 m2 p1 p2 by blast
      then show ?thesis using sel' by simp
    qed
    have c: "\<forall>s\<in>set shipments. not_discarded s \<longrightarrow> spec_precedes E ?best s"
      using least by simp
    show ?thesis using spec c sp before reorder by blast
  qed
  have a: "?best \<in> set shipments" using mem by simp
  have b: "not_discarded ?best" using mem by simp
  show ?thesis
    using sel a b some ordered by (intro exI [of _ ?best]) simp
qed

lemmas select_eval =
  plain_shipment_def not_discarded_def selectBestMatch_def js_sort_def comes_first_def
  compareShipments_def statusRank_def statusOrder_def object_prototype_members_def
  scripted_def spec_precedes_def spec_priority_def spec_selectBestMatch_def orderable_def

theorem selectBestMatch_amended_witness:
  "selectBestMatch scripted
     [plain_shipment ''5773480'' ''ARRIVED'' (JNum 1000) None,
      plain_shipment ''5773481'' ''EN_ROUTE'' (JNum 2000) None,
      plain_shipment ''5773483'' ''EN_ROUTE'' (JNum 4000) (Some (JStr ''2024-05-01'')),
      plain_shipment ''5773482'' ''EN_ROUTE'' (JNum 3000) None]
   = Some (plain_shipment ''5773482'' ''EN_ROUTE'' (JNum 3000) None) \<and>
   spec_selectBestMatch scripted
     [plain_shipment ''5773480'' ''ARRIVED'' (JNum 1000) None,
      plain_shipment ''5773481'' ''EN_ROUTE'' (JNum 2000) None,
      plain_shipment ''5773483'' ''EN_ROUTE'' (JNum 4000) (Some (JStr ''2024-05-01'')),
      plain_shipment ''5773482'' ''EN_ROUTE'' (JNum 3000) None]
   = Some (plain_shipment ''5773482'' ''EN_ROUTE'' (JNum 3000) None) \<and>
   selectBestMatch scripted
     [plain_shipment ''5773482'' ''EN_ROUTE'' (JNum 3000) None,
      plain_shipment ''5773483'' ''EN_ROUTE'' (JNum 4000) (Some (JStr ''2024-05-01'')),
      plain_shipment ''5773481'' ''EN_ROUTE'' (JNum 2000) None,
      plain_shipment ''5773480'' ''ARRIVED'' (JNum 1000) None]
   = Some (plain_shipment ''5773482'' ''EN_ROUTE'' (JNum 3000) None)"
proof -
  let ?a = "plain_shipment ''5773480'' ''ARRIVED'' (JNum 1000) None"
  let ?b = "plain_shipment ''5773481'' ''EN_ROUTE'' (JNum 2000) None"
  let ?c = "plain_shipment ''5773482'' ''EN_ROUTE'' (JNum 3000) None"
  let ?d = "plain_shipment ''5773483'' ''EN_ROUTE'' (JNum 4000) (Some (JStr ''2024-05-01''))"
  let ?L = "[?a, ?b, ?d, ?c]"
  have ne: "?L \<noteq> []" by simp
  have valid: "\<forall>s\<in>set ?L. not_discarded s \<longrightarrow> orderable scripted s"
    by (simp add: select_eval)
  have some: "\<exists>s\<in>set ?L. not_discarded s"
    by (simp add: select_eval)
  have dist: "\<forall>a\<in>set ?L. \<forall>b\<in>set ?L.
      not_discarded a \<and> not_discarded b \<and> spec_precedes scripted a b \<and> spec_precedes scripted b a
      \<longrightarrow> a = b"
    by (simp add: select_eval)
  have perm: "mset [?c, ?d, ?b, ?a] = mset ?L"
    by (simp add: add.commute add.left_commute)
  have ev: "selectBestMatch scripted ?L = Some ?c"
    by (simp add: select_eval)
  from selectBestMatch_amended [OF ne, of scripted] valid some
  obtain best where b: "selectBestMatch scripted ?L = Some best"
    and sp: "spec_selectBestMatch scripted ?L = Some best"
    and r: "\<forall>other. mset other = mset ?L \<and>
           (\<forall>a\<in>set ?L. \<forall>b\<in>set ?L.
               not_discarded a \<and> not_discarded b \<and> spec_precedes scripted a b \<and>
               spec_precedes scripted b a \<longrightarrow> a = b)
         \<longrightarrow> selectBestMatch scripted other = Some best"
    by blast
  have "best = ?c" using b ev by simp
  moreover have "selectBestMatch scripted [?c, ?d, ?b, ?a] = Some best"
    using r perm dist by blast
  ultimately show ?thesis using ev sp by simp
qed

text \<open>
  Outside these conditions the result follows the order of the input. Two discarded
  candidates, DELIVERED then EN_ROUTE:
  the selector returns the first, the specification's sort puts the second at the head,
  and the reversed list gives the other shipment. Two candidates that tie in status and
  creation time: each order of the list gives its first entry. An invalid creation
  date, and a status that names a member of \<open>Object.prototype\<close>: the comparison is
  \<open>NaN\<close>, the order of the input is kept, and the result changes with it.
\<close>

theorem selectBestMatch_counterexample:
  "selectBestMatch scripted
     [plain_shipment ''101'' ''DELIVERED'' (JNum 1000) (Some (JStr ''2024-05-01'')),
      plain_shipment ''102'' ''EN_ROUTE'' (JNum 2000) (Some (JStr ''2024-05-02''))]
   = Some (plain_shipment ''101'' ''DELIVERED'' (JNum 1000) (Some (JStr ''2024-05-01''))) \<and>
   spec_selectBestMatch scripted
     [plain_shipment ''101'' ''DELIVERED'' (JNum 1000) (Some (JStr ''2024-05-01'')),
      plain_shipment ''102'' ''EN_ROUTE'' (JNum 2000) (Some (JStr ''2024-05-02''))]
   = Some (plain_shipment ''102'' ''EN_ROUTE'' (JNum 2000) (Some (JStr ''2024-05-02''))) \<and>
   selectBestMatch scripted
     [plain_shipment ''102'' ''EN_ROUTE'' (JNum 2000) (Some (JStr ''2024-05-02'')),
      plain_shipment ''101'' ''DELIVERED'' (JNum 1000) (Some (JStr ''2024-05-01''))]
   = Some (plain_shipment ''102'' ''EN_ROUTE'' (JNum 2000) (Some (JStr ''2024-05-02''))) \<and>
   selectBestMatch scripted
     [plain_shipment ''201'' ''EN_ROUTE'' (JNum 1000) None,
      plain_shipment ''202'' ''EN_ROUTE'' (JNum 1000) None]
   = Some (plain_shipment ''201'' ''EN_ROUTE'' (JNum 1000) None) \<and>
   selectBestMatch scripted
     [plain_shipment ''202'' ''EN_ROUTE'' (JNum 1000) None,
      plain_shipment ''201'' ''EN_ROUTE'' (JNum 1000) None]
   = Some (plain_shipment ''202'' ''EN_ROUTE'' (JNum 1000) None) \<and>
   selectBestMatch scripted
     [plain_shipment ''301'' ''EN_ROUTE'' (JStr ''n/a'') None,
      plain_shipment ''302'' ''EN_ROUTE'' (JNum 2000) None]
   = Some (plain_shipment ''301'' ''EN_ROUTE'' (JStr ''n/a'') None) \<and>
   selectBestMatch scripted
     [plain_shipment ''302'' ''EN_ROUTE'' (JNum 2000) None,
      plain_shipment ''301'' ''EN_ROUTE'' (JStr ''n/a'') None]
   = Some (plain_shipment ''302'' ''EN_ROUTE'' (JNum 2000) None) \<and>
   selectBestMatch scripted
     [plain_shipment ''401'' ''constructor'' (JNum 1000) None,
      plain_shipment ''402'' ''EN_ROUTE'' (JNum 2000) None]
   = Some (plain_shipment ''401'' ''constructor'' (JNum 1000) None) \<and>
   spec_selectBestMatch scripted
     [plain_shipment ''401'' ''constructor'' (JNum 1000) None,
      plain_shipment ''402'' ''EN_ROUTE'' (JNum 2000) None]
   = Some (plain_shipment ''402'' ''EN_ROUTE'' (JNum 2000) None)"
proof -
  have discarded: "selectBestMatch scripted
     [plain_shipment ''101'' ''DELIVERED'' (JNum 1000) (Some (JStr ''2024-05-01'')),
      plain_shipment ''102'' ''EN_ROUTE'' (JNum 2000) (Some (JStr ''2024-05-02''))]
   = Some (plain_shipment ''101'' ''DELIVERED'' (JNum 1000) (Some (JStr ''2024-05-01''))) \<and>
   spec_selectBestMatch scripted
     [plain_shipment ''101'' ''DELIVERED'' (JNum 1000) (Some (JStr ''2024-05-01'')),
      plain_shipment ''102'' ''EN_ROUTE'' (JNum 2000) (Some (JStr ''2024-05-02''))]
   = Some (plain_shipment ''102'' ''EN_ROUTE'' (JNum 2000) (Some (JStr ''2024-05-02''))) \<and>
   selectBestMatch scripted
     [plain_shipment ''102'' ''EN_ROUTE'' (JNum 2000) (Some (JStr ''2024-05-02'')),
      plain_shipment ''101'' ''DELIVERED'' (JNum 1000) (Some (JStr ''2024-05-01''))]
   = Some (plain_shipment ''102'' ''EN_ROUTE'' (JNum 2000) (Some (JStr ''2024-05-02'')))"
    by (simp add: select_eval)
  have tie: "selectBestMatch scripted
     [plain_shipment ''201'' ''EN_ROUTE'' (JNum 1000) None,
      plain_shipment ''202'' ''EN_ROUTE'' (JNum 1000) None]
   = Some (plain_shipment ''201'' ''EN_ROUTE'' (JNum 1000) None) \<and>
   selectBestMatch scripted
     [plain_shipment ''202'' ''EN_ROUTE'' (JNum 1000) None,
      plain_shipment ''201'' ''EN_ROUTE'' (JNum 1000) None]
   = Some (plain_shipment ''202'' ''EN_ROUTE'' (JNum 1000) None)"
    by (simp add: select_eval)
  have invalid: "selectBestMatch scripted
     [plain_shipment ''301'' ''EN_ROUTE'' (JStr ''n/a'') None,
      plain_shipment ''302'' ''EN_ROUTE'' (JNum 2000) None]
   = Some (plain_shipment ''301'' ''EN_ROUTE'' (JStr ''n/a'') None) \<and>
   selectBestMatch scripted
     [plain_shipment ''302'' ''EN_ROUTE'' (JNum 2000) None,
      plain_shipment ''301'' ''EN_ROUTE'' (JStr ''n/a'') None]
   = Some (plain_shipment ''302'' ''EN_ROUTE'' (JNum 2000) None)"
    by (simp add: select_eval)
  have member: "selectBestMatch scripted
     [plain_shipment ''401'' ''constructor'' (JNum 1000) None,
      plain_shipment ''402'' ''EN_ROUTE'' (JNum 2000) None]
   = Some (plain_shipment ''401'' ''constructor'' (JNum 1000) None) \<and>
   spec_selectBestMatch scripted
     [plain_shipment ''401'' ''constructor'' (JNum 1000) None,
      plain_shipment ''402'' ''EN_ROUTE'' (JNum 2000) None]
   = Some (plain_shipment ''402'' ''EN_ROUTE'' (JNum 2000) None)"
    by (simp add: select_eval)
  show ?thesis using discarded tie invalid member by blast
qed

section \<open>Properties of the response mapper\<close>

lemma mapToShipment_fields:
  assumes "mapToShipment E w raw = Inr s"
  shows "coordinates s = mapCoordinates raw"
  using assms
  by (auto simp: mapToShipment_def split: if_splits sum.splits)

lemma mapCoordinates_top_level:
  assumes "\<not> truthy (js_get raw ''coordinates'')"
  shows "mapCoordinates raw =
     (if truthy (js_get raw ''latitude'') \<and> truthy (js_get raw ''longitude'')
      then Some \<lparr>lat = js_get raw ''latitude'', lng = js_get raw ''longitude''\<rparr>
      else None)"
  using assms by (simp add: mapCoordinates_def js_or_def js_and_def Let_def)

text \<open>
  C9. For a raw payload without a truthy \<open>coordinates\<close> property that \<open>mapToShipment\<close>
  maps to a shipment, the shipment has a \<open>coordinates\<close> field exactly when the top-level
  \<open>latitude\<close> and \<open>longitude\<close> are both truthy, and the field then holds these two
  values; a latitude or longitude that is 0 or absent leaves the shipment without
  coordinates.
\<close>

theorem mapToShipment_coordinates:
  assumes "mapToShipment E w raw = Inr s" and "\<not> truthy (js_get raw ''coordinates'')"
  shows "coordinates s =
           (if truthy (js_get raw ''latitude'') \<and> truthy (js_get raw ''longitude'')
            then Some \<lparr>lat = js_get raw ''latitude'', lng = js_get raw ''longitude''\<rparr>
            else None) \<and>
         (js_get raw ''latitude'' = JNum 0 \<or> js_get raw ''latitude'' = JUndefined \<or>
          js_get raw ''longitude'' = JNum 0 \<or> js_get raw ''longitude'' = JUndefined
          \<longrightarrow> coordinates s = None)"
proof -
  have c: "coordinates s =
           (if truthy (js_get raw ''latitude'') \<and> truthy (js_get raw ''longitude'')
            then Some \<lparr>lat = js_get raw ''latitude'', lng = js_get raw ''longitude''\<rparr>
            else None)"
    using mapToShipment_fields [OF assms(1)] mapCoordinates_top_level [OF assms(2)] by simp
  show ?thesis unfolding c by auto
qed

lemmas mapper_eval =
  mapToShipment_def mapStatus_def mapMilestoneField_def mapCoordinates_def mapVessel_def
  mapPol_def mapPod_def js_or_def js_and_def nullish_def is_array_def prop_opt_def
  replace_non_status_chars_def statusMap_def upper_letters_def lower_letters_def
  ascii_upper_def scripted_def

theorem mapToShipment_coordinates_witness:
  "(\<exists>s. mapToShipment scripted []
          (JObj [(''id'', JStr ''5773482''), (''status'', JStr ''EN_ROUTE''),
                 (''latitude'', JNum 0), (''longitude'', JNum 4)]) = Inr s \<and>
        coordinates s = None) \<and>
   (\<exists>s. mapToShipment scripted []
          (JObj [(''id'', JStr ''5773482''), (''status'', JStr ''EN_ROUTE''),
                 (''latitude'', JNum 51), (''longitude'', JNum 4)]) = Inr s \<and>
        coordinates s = Some \<lparr>lat = JNum 51, lng = JNum 4\<rparr>)"
proof -
  let ?zero = "JObj [(''id'', JStr ''5773482''), (''status'', JStr ''EN_ROUTE''),
                 (''latitude'', JNum 0), (''longitude'', JNum 4)]"
  let ?both = "JObj [(''id'', JStr ''5773482''), (''status'', JStr ''EN_ROUTE''),
                 (''latitude'', JNum 51), (''longitude'', JNum 4)]"
  obtain s where s: "mapToShipment scripted [] ?zero = Inr s"
    by (simp add: mapper_eval)
  obtain t where t: "mapToShipment scripted [] ?both = Inr t"
    by (simp add: mapper_eval)
  have nz: "\<not> truthy (js_get ?zero ''coordinates'')" by simp
  have nb: "\<not> truthy (js_get ?both ''coordinates'')" by simp
  have "coordinates s = None"
    using mapToShipment_coordinates [OF s nz] by simp
  moreover have "coordinates t = Some \<lparr>lat = JNum 51, lng = JNum 4\<rparr>"
    using mapToShipment_coordinates [OF t nb] by simp
  ultimately show ?thesis using s t by blast
qed

section \<open>Evaluation on the scripted platform\<close>

lemma scripted_fields:
  "toUpperCase scripted = ascii_upper"
  "numberToString scripted = show_number"
  "Date_getTime scripted = (\<lambda>v. case v of JNum r \<Rightarrow> Some \<lfloor>r\<rfloor> | _ \<Rightarrow> None)"
  "createCacheKey scripted = scripted_key"
  "TTL scripted = spec_TTL"
  "encodeURIComponent scripted = percent_encode"
  "URLSearchParams_toString scripted =
     (\<lambda>ps. join_with ''&'' (map (\<lambda>(k, v). percent_encode k @ ''='' @ percent_encode v) ps))"
  "fetch scripted = scripted_fetch"
  "Date_now scripted = (\<lambda>w. 1700000000000)"
  "Date_toISOString scripted = (\<lambda>w. ''2023-11-14T22:13:20.000Z'')"
  "Math_random scripted = (\<lambda>w. (1 / 4, w))"
  "setTimeout scripted = (\<lambda>ms w. w)"
  "baseUrl scripted = ''https://api.shipsgo.com/v2''"
  "apiKey scripted = ''demo-key''"
  by (simp_all add: scripted_def)

lemmas request_eval =
  request_def build_request_def updateRateLimitFromResponse_def header_def header_truthy_def ok_def
  json_or_empty_def scripted_fetch_def respond_def initial_def Let_def

lemmas create_eval =
  createShipment_def fetchWithRetry_def create_attempt_def buildCacheKey_def given_def str_of_def
  create_body_def body_field_def cache_get_def scripted_key_def sleep_def retryDelay_def
  is_client_error_def js_or_def prop_opt_def nullish_def bl_request_def

section \<open>Properties of the retry loop\<close>

lemma retry_step:
  "retry_loop E fn maxRetries baseDelay attempt lastError s =
     (if attempt \<le> maxRetries then
        (case fn s of
           (Inr v, s1) \<Rightarrow> (Inr v, s1)
         | (Inl e, s1) \<Rightarrow>
             if is_client_error e then (Inl e, s1)
             else if attempt = maxRetries then (Inl e, s1)
             else retry_loop E fn maxRetries baseDelay (Suc attempt) (Some e)
                    (sleep E (retryDelay baseDelay attempt (fst (Math_random E (world s1))) e)
                       (s1\<lparr>world := snd (Math_random E (world s1))\<rparr>)))
      else (Inl (case lastError of Some e \<Rightarrow> e | None \<Rightarrow> Error ''Max retries exceeded''), s))"
  by (subst retry_loop.simps) (simp add: Let_def split: prod.splits sum.splits)

lemma retryDelay_window:
  assumes "0 \<le> rnd" "rnd < 1"
  shows "(case e of
           RateLimitError (Some (Some n)) \<Rightarrow>
             if n \<noteq> 0 then retryDelay bd attempt rnd e = real_of_int n * 1000
             else bd * 2 ^ attempt \<le> retryDelay bd attempt rnd e \<and>
                  retryDelay bd attempt rnd e < bd * 2 ^ attempt + 500
         | _ \<Rightarrow> bd * 2 ^ attempt \<le> retryDelay bd attempt rnd e \<and>
                retryDelay bd attempt rnd e < bd * 2 ^ attempt + 500)"
  using assms by (auto simp: retryDelay_def Let_def split: error.splits option.splits)

lemma retry_loop_last:
  assumes "attempt \<le> maxRetries"
  shows "\<exists>s'. retry_loop E fn maxRetries baseDelay attempt lastError s = fn s'"
  using assms
proof (induction E fn maxRetries baseDelay attempt lastError s rule: retry_loop.induct)
  case (1 E fn maxRetries baseDelay attempt lastError s)
  obtain r s1 where f: "fn s = (r, s1)" by (cases "fn s")
  show ?case
  proof (cases r)
    case (Inr v)
    then have "retry_loop E fn maxRetries baseDelay attempt lastError s = fn s"
      using f 1(2) by (subst retry_step) simp
    then show ?thesis by blast
  next
    case (Inl e)
    show ?thesis
    proof (cases "is_client_error e \<or> attempt = maxRetries")
      case True
      then have "retry_loop E fn maxRetries baseDelay attempt lastError s = fn s"
        using f Inl 1(2) by (subst retry_step) auto
      then show ?thesis by blast
    next
      case False
      obtain rnd w1 where m: "Math_random E (world s1) = (rnd, w1)"
        by (cases "Math_random E (world s1)")
      have lt: "Suc attempt \<le> maxRetries" using False 1(2) by simp
      have step: "retry_loop E fn maxRetries baseDelay attempt lastError s =
          retry_loop E fn maxRetries baseDelay (Suc attempt) (Some e)
            (sleep E (retryDelay baseDelay attempt rnd e) (s1\<lparr>world := w1\<rparr>))"
        using f Inl False 1(2) m by (subst retry_step) simp
      have "\<exists>s'. retry_loop E fn maxRetries baseDelay (Suc attempt) (Some e)
            (sleep E (retryDelay baseDelay attempt rnd e) (s1\<lparr>world := w1\<rparr>)) = fn s'"
        by (rule 1(1) [OF 1(2) f [symmetric] Inl _ _ refl m [symmetric] refl lt])
           (use False in simp_all)
      then show ?thesis using step by simp
    qed
  qed
qed

lemmas parse_eval = parseInt_def is_space_def digit_chars_def digit_value_def Let_def

lemma parseInt_examples:
  "parseInt ''120'' = Some 120 \<and> parseInt '' -7x'' = Some (-7) \<and> parseInt ''Wed, 21 Oct'' = None
   \<and> parseInt ''0'' = Some 0"
  by (simp add: parse_eval)

text \<open>
  C5 (amended). Under the retry policy, for a random source that gives numbers in
  [0, 1): an attempt that fails with an \<open>ApiError\<close> whose status is 4xx other than 429
  ends the loop at once with that error, in the state the attempt left; a failure at the
  last attempt is raised as it is; any other failure before the last attempt is followed
  by one sleep and the next attempt, where the delay lies in
  [baseDelay * 2^attempt, baseDelay * 2^attempt + 500), except that a \<open>RateLimitError\<close>
  whose \<open>retryAfter\<close> is a number other than 0 gives the delay \<open>retryAfter * 1000\<close>
  (a \<open>retryAfter\<close> of 0 or \<open>NaN\<close> leaves the computed delay); and what \<open>fetchWithRetry\<close>
  returns is what the last invocation of the operation returned.
\<close>

theorem fetchWithRetry_policy:
  assumes rnd: "\<forall>w. 0 \<le> fst (Math_random E w) \<and> fst (Math_random E w) < 1"
    and att: "attempt \<le> maxRetries"
    and fails: "fn s = (Inl e, s1)"
  shows
   "fetchWithRetry E fn maxRetries baseDelay = retry_loop E fn maxRetries baseDelay 0 None \<and>
    (is_client_error e \<longleftrightarrow> (\<exists>st d. e = ApiError st d \<and> 400 \<le> st \<and> st < 500 \<and> st \<noteq> 429)) \<and>
    (is_client_error e \<longrightarrow>
       retry_loop E fn maxRetries baseDelay attempt lastError s = (Inl e, s1)) \<and>
    (attempt = maxRetries \<longrightarrow>
       retry_loop E fn maxRetries baseDelay attempt lastError s = (Inl e, s1)) \<and>
    (\<not> is_client_error e \<and> attempt < maxRetries \<longrightarrow>
       (\<exists>delay. retry_loop E fn maxRetries baseDelay attempt lastError s =
                   retry_loop E fn maxRetries baseDelay (Suc attempt) (Some e)
                     (sleep E delay (s1\<lparr>world := snd (Math_random E (world s1))\<rparr>)) \<and>
                (case e of
                   RateLimitError (Some (Some n)) \<Rightarrow>
                     if n \<noteq> 0 then delay = real_of_int n * 1000
                     else baseDelay * 2 ^ attempt \<le> delay \<and> delay < baseDelay * 2 ^ attempt + 500
                 | _ \<Rightarrow> baseDelay * 2 ^ attempt \<le> delay \<and>
                        delay < baseDelay * 2 ^ attempt + 500))) \<and>
    (\<exists>s'. fetchWithRetry E fn maxRetries baseDelay s0 = fn s')"
proof -
  have a: "fetchWithRetry E fn maxRetries baseDelay = retry_loop E fn maxRetries baseDelay 0 None"
    by (rule ext) (simp add: fetchWithRetry_def)
  have b: "is_client_error e \<longleftrightarrow> (\<exists>st d. e = ApiError st d \<and> 400 \<le> st \<and> st < 500 \<and> st \<noteq> 429)"
    by (cases e) (auto simp: is_client_error_def)
  have c: "retry_loop E fn maxRetries baseDelay attempt lastError s = (Inl e, s1)"
    if "is_client_error e"
    using that att fails by (subst retry_step) simp
  have d: "retry_loop E fn maxRetries baseDelay attempt lastError s = (Inl e, s1)"
    if "attempt = maxRetries"
    using that fails by (subst retry_step) simp
  have e: "\<exists>delay. retry_loop E fn maxRetries baseDelay attempt lastError s =
                   retry_loop E fn maxRetries baseDelay (Suc attempt) (Some e)
                     (sleep E delay (s1\<lparr>world := snd (Math_random E (world s1))\<rparr>)) \<and>
                (case e of
                   RateLimitError (Some (Some n)) \<Rightarrow>
                     if n \<noteq> 0 then delay = real_of_int n * 1000
                     else baseDelay * 2 ^ attempt \<le> delay \<and> delay < baseDelay * 2 ^ attempt + 500
                 | _ \<Rightarrow> baseDelay * 2 ^ attempt \<le> delay \<and>
                        delay < baseDelay * 2 ^ attempt + 500)"
    if "\<not> is_client_error e" "attempt < maxRetries"
  proof -
    let ?r = "fst (Math_random E (world s1))"
    have r: "0 \<le> ?r" "?r < 1" using rnd by simp_all
    have "retry_loop E fn maxRetries baseDelay attempt lastError s =
            retry_loop E fn maxRetries baseDelay (Suc attempt) (Some e)
              (sleep E (retryDelay baseDelay attempt ?r e)
                 (s1\<lparr>world := snd (Math_random E (world s1))\<rparr>))"
      using that fails by (subst retry_step) simp
    then show ?thesis
      using retryDelay_window [OF r, where e = e and bd = baseDelay and attempt = attempt] by blast
  qed
  have f: "\<exists>s'. fetchWithRetry E fn maxRetries baseDelay s0 = fn s'"
    unfolding fetchWithRetry_def by (rule retry_loop_last) simp
  show ?thesis using a b c d e f by blast
qed

lemmas list_eval =
  list_producer_def list_endpoint_def append_param_def str_field_def num_field_def

theorem fetchWithRetry_policy_witness:
  "fst (fetchWithRetry scripted (list_producer scripted None) 3 1000
          (initial [respond 500 (JObj []), respond 404 (JObj []), respond 200 (JObj [])]))
     = Inl (ApiError 404 (JObj [])) \<and>
   slept (snd (fetchWithRetry scripted (list_producer scripted None) 3 1000
          (initial [respond 500 (JObj []), respond 404 (JObj []), respond 200 (JObj [])])))
     = [1125] \<and>
   length (sent (snd (fetchWithRetry scripted (list_producer scripted None) 3 1000
          (initial [respond 500 (JObj []), respond 404 (JObj []), respond 200 (JObj [])]))))
     = 2"
proof -
  let ?s = "initial [respond 500 (JObj []), respond 404 (JObj []), respond 200 (JObj [])]"
  let ?fn = "list_producer scripted None"
  have rnd: "\<forall>w. 0 \<le> fst (Math_random scripted w) \<and> fst (Math_random scripted w) < 1"
    by (simp add: scripted_fields)
  have att: "(0::nat) \<le> 3" by simp
  have fails: "?fn ?s = (Inl (ApiError 500 (JObj [])), snd (?fn ?s))"
    by (simp add: list_eval scripted_fields request_eval)
  note policy = fetchWithRetry_policy [where E = scripted and fn = ?fn and s = ?s
      and attempt = 0 and maxRetries = 3 and baseDelay = 1000 and lastError = None
      and ?s0.0 = ?s, OF rnd att fails]
  show ?thesis
    using policy
    by (simp add: fetchWithRetry_def retry_step list_eval scripted_fields request_eval
        is_client_error_def retryDelay_def sleep_def)
qed

text \<open>
  A 429 with \<open>Retry-After: 0\<close>: the error carries the retry-after 0, and the loop sleeps
  the computed 1125 ms, not 0 ms.
\<close>

theorem fetchWithRetry_retry_after_counterexample:
  "fst (request scripted ''GET'' ''/ocean/shipments?limit=1'' None
          (initial [Responded \<lparr>resp_status = 429, resp_headers = [(''Retry-After'', ''0'')],
                                resp_json = None\<rparr>,
                    respond 200 (JObj [])]))
     = Inl (RateLimitError (Some (Some 0))) \<and>
   slept (snd (fetchWithRetry scripted (request scripted ''GET'' ''/ocean/shipments?limit=1'' None)
                  3 1000
                  (initial [Responded \<lparr>resp_status = 429, resp_headers = [(''Retry-After'', ''0'')],
                                        resp_json = None\<rparr>,
                            respond 200 (JObj [])])))
     = [1125] \<and>
   retryDelay 1000 0 (1 / 4) (RateLimitError (Some (Some 0))) \<noteq> real_of_int 0 * 1000"
  by (simp add: fetchWithRetry_def retry_step scripted_fields request_eval parse_eval
      is_client_error_def retryDelay_def sleep_def)

text \<open>
  C1. The code on a remote that answers every create with 402: \<open>createShipment\<close> sends
  the POST four times, sleeping 1125, 2125 and 4125 ms in between, before it raises the
  insufficient-credits error; \<open>InsufficientCreditsError\<close> is no \<open>ApiError\<close>, so the test
  that spares 4xx errors the retries does not see it. A remote that answers every create
  with 429 is retried in the same way, and the rate-limit error surfaces after the
  fourth attempt.
\<close>

theorem createShipment_402_is_retried:
  "fst (createShipment scripted bl_request None
          (initial [respond 402 (JObj []), respond 402 (JObj []), respond 402 (JObj []),
                    respond 402 (JObj [])]))
     = Inl (InsufficientCreditsError (JStr ''Insufficient credits'')) \<and>
   map http_method (sent (snd (createShipment scripted bl_request None
          (initial [respond 402 (JObj []), respond 402 (JObj []), respond 402 (JObj []),
                    respond 402 (JObj [])]))))
     = [''POST'', ''POST'', ''POST'', ''POST''] \<and>
   slept (snd (createShipment scripted bl_request None
          (initial [respond 402 (JObj []), respond 402 (JObj []), respond 402 (JObj []),
                    respond 402 (JObj [])])))
     = [1125, 2125, 4125] \<and>
   fst (createShipment scripted bl_request None
          (initial [respond 429 (JObj []), respond 429 (JObj []), respond 429 (JObj []),
                    respond 429 (JObj [])]))
     = Inl (RateLimitError None) \<and>
   map http_method (sent (snd (createShipment scripted bl_request None
          (initial [respond 429 (JObj []), respond 429 (JObj []), respond 429 (JObj []),
                    respond 429 (JObj [])]))))
     = [''POST'', ''POST'', ''POST'', ''POST'']"
proof -
  let ?credits = "initial [respond 402 (JObj []), respond 402 (JObj []), respond 402 (JObj []),
                    respond 402 (JObj [])]"
  let ?limited = "initial [respond 429 (JObj []), respond 429 (JObj []), respond 429 (JObj []),
                    respond 429 (JObj [])]"
  have miss: "cache_get (cache (initial script)) (buildCacheKey scripted bl_request) = None"
    for script
    by (simp add: initial_def cache_get_def)
  have wrapped: "createShipment scripted bl_request None (initial script) =
      retry_loop scripted
        (create_attempt scripted bl_request None (buildCacheKey scripted bl_request)) 3 1000
        0 None (initial script)" for script
    by (simp add: createShipment_def miss fetchWithRetry_def)
  have not_spared: "\<not> is_client_error (InsufficientCreditsError (JStr ''Insufficient credits''))"
    by (simp add: is_client_error_def)
  have a: "fst (createShipment scripted bl_request None ?credits)
     = Inl (InsufficientCreditsError (JStr ''Insufficient credits''))"
    unfolding wrapped by (simp add: create_eval scripted_fields request_eval retry_step)
  have b: "map http_method (sent (snd (createShipment scripted bl_request None ?credits)))
     = [''POST'', ''POST'', ''POST'', ''POST'']"
    unfolding wrapped by (simp add: create_eval scripted_fields request_eval retry_step)
  have c: "slept (snd (createShipment scripted bl_request None ?credits)) = [1125, 2125, 4125]"
    unfolding wrapped by (simp add: create_eval scripted_fields request_eval retry_step)
  have d: "fst (createShipment scripted bl_request None ?limited) = Inl (RateLimitError None)"
    unfolding wrapped by (simp add: create_eval scripted_fields request_eval retry_step)
  have e: "map http_method (sent (snd (createShipment scripted bl_request None ?limited)))
     = [''POST'', ''POST'', ''POST'', ''POST'']"
    unfolding wrapped by (simp add: create_eval scripted_fields request_eval retry_step)
  show ?thesis using a b c d e not_spared by blast
qed

text \<open>
  C3. The code on a listing that answers 404: \<open>listShipments\<close> raises \<open>ApiError\<close> 404 and
  caches nothing, where \<open>searchByReference\<close>, on the same endpoint, returns the empty
  list.
\<close>

theorem listShipments_404_throws:
  "fst (listShipments scripted None (initial [respond 404 (JObj [])]))
     = Inl (ApiError 404 (JObj [])) \<and>
   entries (cache (snd (listShipments scripted None (initial [respond 404 (JObj [])])))) = [] \<and>
   fst (searchByReference scripted ''SO-1'' (initial [respond 404 (JObj [])]))
     = Inr (CShipments [])"
  by (simp add: listShipments_def getOrFetch_def cache_get_def list_key_def list_eval
      searchByReference_def search_producer_def search_endpoint_def search_key_def
      scripted_fields request_eval)

section \<open>The log of requests\<close>

lemma sent_updateRateLimit [simp]: "sent (updateRateLimitFromResponse E r s) = sent s"
  by (simp add: updateRateLimitFromResponse_def Let_def)

lemma cache_updateRateLimit [simp]: "cache (updateRateLimitFromResponse E r s) = cache s"
  by (simp add: updateRateLimitFromResponse_def Let_def)

lemma cacheDisabled_updateRateLimit [simp]:
  "cacheDisabled (updateRateLimitFromResponse E r s) = cacheDisabled s"
  by (simp add: updateRateLimitFromResponse_def Let_def)

lemma request_sent:
  "sent (snd (request E m endpoint b s)) = sent s @ [build_request E m endpoint b]"
  by (simp add: request_def Let_def split: prod.splits fetch_outcome.splits)

lemma request_cache: "cache (snd (request E m endpoint b s)) = cache s"
  by (simp add: request_def Let_def split: prod.splits fetch_outcome.splits)

lemma request_cacheDisabled: "cacheDisabled (snd (request E m endpoint b s)) = cacheDisabled s"
  by (simp add: request_def Let_def split: prod.splits fetch_outcome.splits)

lemma track_producer_sent:
  "sent (snd (track_producer E qname r s)) =
     sent s @ [build_request E ''GET'' (track_endpoint E qname r) None]"
  using request_sent [of E "''GET''" "track_endpoint E qname r" None s]
  by (auto simp: track_producer_def split: prod.splits sum.splits jsval.splits)

lemma search_producer_sent:
  "sent (snd (search_producer E r s)) =
     sent s @ [build_request E ''GET'' (search_endpoint E r) None]"
  using request_sent [of E "''GET''" "search_endpoint E r" None s]
  by (auto simp: search_producer_def split: prod.splits sum.splits jsval.splits)

lemma getOrFetch_miss_sent:
  assumes "bypassCache \<or> cache_get (cache s) k = None"
  shows "sent (snd (getOrFetch k producer ttl bypassCache s)) = sent (snd (producer s))"
  using assms by (auto simp: getOrFetch_def split: prod.splits sum.splits option.splits)

lemma getOrFetch_prefix:
  assumes "\<And>s. prefix (sent s) (sent (snd (producer s)))"
  shows "prefix (sent s) (sent (snd (getOrFetch k producer ttl bypassCache s)))"
  using assms [of s]
  by (auto simp: getOrFetch_def split: prod.splits sum.splits option.splits)

lemma request_prefix: "prefix (sent s) (sent (snd (request E m endpoint b s)))"
  by (simp add: request_sent)

lemma patch_reference_prefix: "prefix (sent s) (sent (snd (patch_reference E sid r s)))"
  using request_prefix [of s E "''PATCH''" "''/ocean/shipments/'' @ sid"
      "Some (JObj [(''reference'', JStr r)])"]
  by (auto simp: patch_reference_def split: prod.splits sum.splits)

lemma track_prefix: "prefix (sent s) (sent (snd (track E opname pname qname r s)))"
  unfolding track_def
  by (rule getOrFetch_prefix) (simp add: track_producer_sent)

lemma fetchByReference_prefix: "prefix (sent s) (sent (snd (fetchByReference E d s)))"
  by (simp add: fetchByReference_def trackByBL_def trackByContainer_def trackByBooking_def
      track_prefix)

lemma create_attempt_sent:
  "prefix (sent s @ [build_request E ''POST'' ''/ocean/shipments'' (Some (create_body d))])
          (sent (snd (create_attempt E d customReference cacheKey s)))"
proof -
  let ?rq = "request E ''POST'' ''/ocean/shipments'' (Some (create_body d)) s"
  obtain res s1 where r: "?rq = (res, s1)" by (cases ?rq)
  have s1: "sent s1 = sent s @ [build_request E ''POST'' ''/ocean/shipments'' (Some (create_body d))]"
    using request_sent [of E "''POST''" "''/ocean/shipments''" "Some (create_body d)" s] r
    by simp
  show ?thesis
  proof (cases res)
    case (Inl e)
    then show ?thesis using r s1 by (simp add: create_attempt_def)
  next
    case (Inr dr)
    obtain responseData resp where dr: "dr = (responseData, resp)" by (cases dr)
    have p: "prefix (sent s1) (sent s2)"
      if "patch_reference E sid ref s1 = (wn, s2)" for sid ref wn s2
      using patch_reference_prefix [of s1 E sid ref] that by simp
    have f: "prefix (sent s1) (sent s2)" if "fetchByReference E d s1 = (ex, s2)" for ex s2
      using fetchByReference_prefix [of s1 E d] that by simp
    show ?thesis
      using r Inr dr p f unfolding s1 [symmetric]
      by (auto simp: create_attempt_def Let_def split: prod.splits sum.splits if_splits)
  qed
qed

lemma create_attempt_prefix:
  "prefix (sent s) (sent (snd (create_attempt E d customReference cacheKey s)))"
  using create_attempt_sent [of s E d customReference cacheKey]
  by (meson prefix_order.trans prefixI)

lemma sent_sleep [simp]: "sent (sleep E ms s) = sent s"
  by (simp add: sleep_def)

lemma retry_loop_prefix:
  assumes "\<And>s. prefix (sent s) (sent (snd (fn s)))"
  shows "prefix (sent s) (sent (snd (retry_loop E fn maxRetries baseDelay attempt lastError s)))"
  using assms
proof (induction E fn maxRetries baseDelay attempt lastError s rule: retry_loop.induct)
  case (1 E fn maxRetries baseDelay attempt lastError s)
  obtain r s1 where f: "fn s = (r, s1)" by (cases "fn s")
  have p1: "prefix (sent s) (sent s1)" using "1.prems" [of s] f by simp
  show ?case
  proof (cases "attempt \<le> maxRetries")
    case False
    then show ?thesis by (subst retry_step) simp
  next
    case le: True
    show ?thesis
    proof (cases r)
      case (Inr v)
      then show ?thesis using f le p1 by (subst retry_step) simp
    next
      case (Inl e)
      show ?thesis
      proof (cases "is_client_error e \<or> attempt = maxRetries")
        case True
        then show ?thesis using f Inl le p1 by (subst retry_step) auto
      next
        case False
        obtain rnd w1 where m: "Math_random E (world s1) = (rnd, w1)"
          by (cases "Math_random E (world s1)")
        let ?s2 = "sleep E (retryDelay baseDelay attempt rnd e) (s1\<lparr>world := w1\<rparr>)"
        have step: "retry_loop E fn maxRetries baseDelay attempt lastError s =
            retry_loop E fn maxRetries baseDelay (Suc attempt) (Some e) ?s2"
          using f Inl False le m by (subst retry_step) simp
        have "prefix (sent ?s2)
            (sent (snd (retry_loop E fn maxRetries baseDelay (Suc attempt) (Some e) ?s2)))"
          by (rule "1.IH" [OF le f [symmetric] Inl _ _ refl m [symmetric] refl])
             (use False "1.prems" in simp_all)
        then have "prefix (sent s1)
            (sent (snd (retry_loop E fn maxRetries baseDelay (Suc attempt) (Some e) ?s2)))"
          by simp
        then show ?thesis using step p1 by (metis prefix_order.trans)
      qed
    qed
  qed
qed

lemma retry_loop_first:
  assumes mono: "\<And>s. prefix (sent s) (sent (snd (fn s)))"
    and le: "attempt \<le> maxRetries"
  shows "prefix (sent (snd (fn s)))
           (sent (snd (retry_loop E fn maxRetries baseDelay attempt lastError s)))"
proof -
  obtain r s1 where f: "fn s = (r, s1)" by (cases "fn s")
  show ?thesis
  proof (cases r)
    case (Inr v)
    then show ?thesis using f le by (subst retry_step) simp
  next
    case (Inl e)
    show ?thesis
    proof (cases "is_client_error e \<or> attempt = maxRetries")
      case True
      then show ?thesis using f Inl le by (subst retry_step) auto
    next
      case False
      let ?s2 = "sleep E (retryDelay baseDelay attempt (fst (Math_random E (world s1))) e)
                   (s1\<lparr>world := snd (Math_random E (world s1))\<rparr>)"
      have step: "retry_loop E fn maxRetries baseDelay attempt lastError s =
          retry_loop E fn maxRetries baseDelay (Suc attempt) (Some e) ?s2"
        using f Inl False le by (subst retry_step) simp
      have "prefix (sent ?s2)
          (sent (snd (retry_loop E fn maxRetries baseDelay (Suc attempt) (Some e) ?s2)))"
        by (rule retry_loop_prefix [OF mono])
      then show ?thesis using step f by simp
    qed
  qed
qed

section \<open>Properties of the reference trackers and the search\<close>

lemma percent_not_unreserved: "CHR ''%'' \<notin> set unreserved_chars"
  by (simp add: unreserved_chars_def upper_letters_def lower_letters_def digit_chars_def)

lemma hex_distinct: "distinct hex_chars" "length hex_chars = 16"
  by (simp_all add: hex_chars_def)

lemma of_char_less_256: "(of_char c :: nat) < 256"
  by (cases c) simp

lemma hex_pair_inj:
  assumes "hex_chars ! (of_char c div 16) = hex_chars ! (of_char d div 16)"
    and "hex_chars ! (of_char c mod 16) = hex_chars ! (of_char d mod 16)"
  shows "c = d"
proof -
  have dv: "n div 16 < 16" if "n < 256" for n :: nat
    using that by presburger
  have lc: "(of_char c :: nat) div 16 < 16" "(of_char d :: nat) div 16 < 16"
    using of_char_less_256 [of c] of_char_less_256 [of d] by (simp_all add: dv)
  have lm: "(of_char c :: nat) mod 16 < 16" "(of_char d :: nat) mod 16 < 16" by simp_all
  have a: "(of_char c :: nat) div 16 = of_char d div 16"
    using assms(1) lc hex_distinct by (simp add: nth_eq_iff_index_eq)
  have b: "(of_char c :: nat) mod 16 = of_char d mod 16"
    using assms(2) lm hex_distinct by (simp add: nth_eq_iff_index_eq)
  have "(of_char c :: nat) = of_char d"
    using a b by (metis div_mult_mod_eq)
  then show ?thesis by simp
qed

lemma percent_encode_char_append:
  assumes "percent_encode_char c @ xs = percent_encode_char d @ ys"
  shows "c = d \<and> xs = ys"
proof (cases "c \<in> set unreserved_chars")
  case True
  note c = this
  show ?thesis
  proof (cases "d \<in> set unreserved_chars")
    case True
    then show ?thesis using c assms by (simp add: percent_encode_char_def)
  next
    case False
    then have "c = CHR ''%''" using c assms by (simp add: percent_encode_char_def)
    then show ?thesis using c percent_not_unreserved by simp
  qed
next
  case False
  note c = this
  show ?thesis
  proof (cases "d \<in> set unreserved_chars")
    case True
    then have "d = CHR ''%''" using c assms by (simp add: percent_encode_char_def)
    then show ?thesis using True percent_not_unreserved by simp
  next
    case False
    then have "hex_chars ! (of_char c div 16) = hex_chars ! (of_char d div 16)"
      "hex_chars ! (of_char c mod 16) = hex_chars ! (of_char d mod 16)" "xs = ys"
      using c assms by (simp_all add: percent_encode_char_def)
    then show ?thesis using hex_pair_inj by blast
  qed
qed

lemma percent_encode_char_not_Nil: "percent_encode_char c \<noteq> []"
  by (simp add: percent_encode_char_def)

lemma percent_encode_inj: "percent_encode s = percent_encode t \<Longrightarrow> s = t"
proof (induction s arbitrary: t)
  case Nil
  then show ?case
    by (cases t) (simp_all add: percent_encode_def percent_encode_char_not_Nil)
next
  case (Cons c s)
  show ?case
  proof (cases t)
    case Nil
    then show ?thesis using Cons.prems
      by (simp add: percent_encode_def percent_encode_char_not_Nil)
  next
    case (Cons d t')
    have "percent_encode_char c @ percent_encode s = percent_encode_char d @ percent_encode t'"
      using Cons.prems Cons by (simp add: percent_encode_def)
    then have "c = d \<and> percent_encode s = percent_encode t'"
      by (rule percent_encode_char_append)
    then show ?thesis using Cons.IH [of t'] Cons by simp
  qed
qed

lemma scripted_key_inj:
  "scripted_key opname [(k, JStr a)] = scripted_key opname [(k, JStr b)] \<Longrightarrow> a = b"
  by (simp add: scripted_key_def)

lemma track_cong:
  assumes "toUpperCase E r1 = toUpperCase E r2"
  shows "track E opname pname qname r1 = track E opname pname qname r2"
proof -
  have k: "track_key E opname pname r1 = track_key E opname pname r2"
    using assms by (simp add: track_key_def)
  have e: "track_endpoint E qname r1 = track_endpoint E qname r2"
    using assms by (simp add: track_endpoint_def)
  have p: "track_producer E qname r1 = track_producer E qname r2"
    by (rule ext) (simp add: track_producer_def e)
  show ?thesis by (rule ext) (simp add: track_def k p)
qed

lemma track_miss_sent:
  assumes "cacheDisabled s \<or> cache_get (cache s) (track_key E opname pname r) = None"
  shows "sent (snd (track E opname pname qname r s)) =
           sent s @ [build_request E ''GET'' (track_endpoint E qname r) None]"
  unfolding track_def
  using getOrFetch_miss_sent [OF assms] track_producer_sent by metis

lemma search_miss_sent:
  assumes "cacheDisabled s \<or> cache_get (cache s) (search_key E r) = None"
  shows "sent (snd (searchByReference E r s)) =
           sent s @ [build_request E ''GET'' (search_endpoint E r) None]"
  unfolding searchByReference_def
  using getOrFetch_miss_sent [OF assms] search_producer_sent by metis

lemma track_producer_cache: "cache (snd (track_producer E qname r s)) = cache s"
  using request_cache [of E "''GET''" "track_endpoint E qname r" None s]
  by (auto simp: track_producer_def split: prod.splits sum.splits jsval.splits)

lemma search_producer_cache: "cache (snd (search_producer E r s)) = cache s"
  using request_cache [of E "''GET''" "search_endpoint E r" None s]
  by (auto simp: search_producer_def split: prod.splits sum.splits jsval.splits)

lemma track_producer_cacheDisabled:
  "cacheDisabled (snd (track_producer E qname r s)) = cacheDisabled s"
  using request_cacheDisabled [of E "''GET''" "track_endpoint E qname r" None s]
  by (auto simp: track_producer_def split: prod.splits sum.splits jsval.splits)

lemma getOrFetch_serves:
  assumes "sent (snd (producer s)) = sent s @ [build_request E ''GET'' endpoint None]"
    and "cache (snd (producer s)) = cache s"
  shows "serves_entry E (\<lambda>s. getOrFetch k producer ttl (cacheDisabled s) s) k endpoint ttl s"
  using assms
  by (auto simp: serves_entry_def getOrFetch_def split: prod.splits sum.splits option.splits)

lemma track_serves:
  "serves_entry E (track E opname pname qname r) (track_key E opname pname r)
     (track_endpoint E qname r) (HOUR (TTL E) * 2) s"
proof -
  have "track E opname pname qname r =
      (\<lambda>s. getOrFetch (track_key E opname pname r) (track_producer E qname r)
               (HOUR (TTL E) * 2) (cacheDisabled s) s)"
    by (rule ext) (simp add: track_def)
  then show ?thesis
    using getOrFetch_serves [where producer = "track_producer E qname r" and s = s and E = E
        and endpoint = "track_endpoint E qname r", OF track_producer_sent track_producer_cache]
    by simp
qed

lemma search_serves:
  "serves_entry E (searchByReference E r) (search_key E r) (search_endpoint E r)
     (FIFTEEN_MINUTES (TTL E)) s"
proof -
  have "searchByReference E r =
      (\<lambda>s. getOrFetch (search_key E r) (search_producer E r)
               (FIFTEEN_MINUTES (TTL E)) (cacheDisabled s) s)"
    by (rule ext) (simp add: searchByReference_def)
  then show ?thesis
    using getOrFetch_serves [where producer = "search_producer E r" and s = s and E = E
        and endpoint = "search_endpoint E r", OF search_producer_sent search_producer_cache]
    by simp
qed

lemma cache_get_set_same:
  "enabled c \<Longrightarrow> cache_get (cache_set c k v ttl) k = Some v"
  by (simp add: cache_get_def cache_set_def)

lemma cache_get_set_other:
  "k \<noteq> k' \<Longrightarrow> cache_get (cache_set c k v ttl) k' = cache_get c k'"
  by (simp add: cache_get_def cache_set_def)

lemma getOrFetch_again:
  assumes c: "cache (snd (producer s)) = cache s"
    and d: "cacheDisabled (snd (producer s)) = cacheDisabled s"
    and on: "\<not> cacheDisabled s" "enabled (cache s)"
    and run: "getOrFetch k producer ttl (cacheDisabled s) s = (Inr v, s1)"
  shows "getOrFetch k producer2 ttl2 (cacheDisabled s1) s1 = (Inr v, s1)"
proof (cases "cache_get (cache s) k")
  case (Some v')
  then have "s1 = s" "v = v'" using run on by (simp_all add: getOrFetch_def)
  then show ?thesis using Some on by (simp add: getOrFetch_def)
next
  case None
  obtain res s' where p: "producer s = (res, s')" by (cases "producer s")
  have res: "res = Inr v" and s1: "s1 = s'\<lparr>cache := cache_set (cache s') k v ttl\<rparr>"
    using run on None p by (auto simp: getOrFetch_def split: sum.splits)
  have "cache s' = cache s" "cacheDisabled s' = cacheDisabled s" using c d p by simp_all
  then have "\<not> cacheDisabled s1" "cache_get (cache s1) k = Some v"
    using on s1 by (simp_all add: cache_get_set_same)
  then show ?thesis by (simp add: getOrFetch_def)
qed

lemma track_again:
  assumes "toUpperCase E r1 = toUpperCase E r2"
    and "\<not> cacheDisabled s" "enabled (cache s)"
    and "track E opname pname qname r1 s = (Inr v, s1)"
  shows "track E opname pname qname r2 s1 = (Inr v, s1)"
proof -
  have k: "track_key E opname pname r2 = track_key E opname pname r1"
    using assms(1) by (simp add: track_key_def)
  show ?thesis
    unfolding track_def k
    by (rule getOrFetch_again [OF track_producer_cache track_producer_cacheDisabled
          assms(2,3) assms(4) [unfolded track_def]])
qed

lemma search_other:
  assumes "search_key E r1 \<noteq> search_key E r2"
  shows "cache_get (cache (snd (searchByReference E r1 s))) (search_key E r2) =
         cache_get (cache s) (search_key E r2)"
  using assms search_producer_cache [of E r1 s]
  by (auto simp: searchByReference_def getOrFetch_def cache_get_set_other
      split: prod.splits sum.splits option.splits)

text \<open>
  C10. From every state, \<open>trackByBL\<close>, \<open>trackByContainer\<close> and \<open>trackByBooking\<close> serve
  the cache entry whose key is built from the upper-cased reference (under
  \<open>shipment:bl\<close>, \<open>shipment:container\<close> and \<open>shipment:booking\<close>) with the query on the
  upper-cased reference (\<open>bl_number\<close>, \<open>container_number\<close>, \<open>booking_number\<close>) and a
  TTL of two hours: a hit returns the cached value and sends nothing, a miss sends
  exactly that query and stores the result under that key. So two references with the
  same upper-casing give the same tracker, and once one of them has been tracked, the
  cache being enabled, tracking the other returns the same result from the cache without
  a request. \<open>searchByReference\<close> serves the entry whose key is built from the reference
  as it is, with the query on the reference as it is and a TTL of fifteen minutes; so,
  the key builder and the URI encoding being injective, two different references (in
  particular two that differ in letter case only) have different keys and different
  query URLs, and a search for one of them leaves the entry of the other as it was.
\<close>

theorem reference_case_handling:
  "serves_entry E (trackByBL E r)
     (createCacheKey E ''shipment:bl'' [(''bl'', JStr (toUpperCase E r))])
     (''/ocean/shipments?bl_number='' @ encodeURIComponent E (toUpperCase E r))
     (HOUR (TTL E) * 2) s \<and>
   serves_entry E (trackByContainer E r)
     (createCacheKey E ''shipment:container'' [(''container'', JStr (toUpperCase E r))])
     (''/ocean/shipments?container_number='' @ encodeURIComponent E (toUpperCase E r))
     (HOUR (TTL E) * 2) s \<and>
   serves_entry E (trackByBooking E r)
     (createCacheKey E ''shipment:booking'' [(''booking'', JStr (toUpperCase E r))])
     (''/ocean/shipments?booking_number='' @ encodeURIComponent E (toUpperCase E r))
     (HOUR (TTL E) * 2) s \<and>
   serves_entry E (searchByReference E r)
     (createCacheKey E ''search'' [(''ref'', JStr r)])
     (''/ocean/shipments?reference='' @ encodeURIComponent E r)
     (FIFTEEN_MINUTES (TTL E)) s \<and>
   (toUpperCase E r1 = toUpperCase E r2 \<longrightarrow>
      trackByBL E r1 = trackByBL E r2 \<and> trackByContainer E r1 = trackByContainer E r2 \<and>
      trackByBooking E r1 = trackByBooking E r2 \<and>
      (\<not> cacheDisabled s \<and> enabled (cache s) \<longrightarrow>
         (\<forall>v s1. trackByBL E r1 s = (Inr v, s1) \<longrightarrow> trackByBL E r2 s1 = (Inr v, s1)) \<and>
         (\<forall>v s1. trackByContainer E r1 s = (Inr v, s1) \<longrightarrow>
                  trackByContainer E r2 s1 = (Inr v, s1)) \<and>
         (\<forall>v s1. trackByBooking E r1 s = (Inr v, s1) \<longrightarrow>
                  trackByBooking E r2 s1 = (Inr v, s1)))) \<and>
   (cacheDisabled s \<or> cache_get (cache s) (track_key E ''shipment:bl'' ''bl'' r) = None \<longrightarrow>
      sent (snd (trackByBL E r s)) =
        sent s @ [build_request E ''GET''
                    (''/ocean/shipments?bl_number='' @ encodeURIComponent E (toUpperCase E r)) None]) \<and>
   track_key E ''shipment:bl'' ''bl'' r =
     createCacheKey E ''shipment:bl'' [(''bl'', JStr (toUpperCase E r))] \<and>
   search_key E r = createCacheKey E ''search'' [(''ref'', JStr r)] \<and>
   (cacheDisabled s \<or> cache_get (cache s) (search_key E r) = None \<longrightarrow>
      sent (snd (searchByReference E r s)) =
        sent s @ [build_request E ''GET''
                    (''/ocean/shipments?reference='' @ encodeURIComponent E r) None]) \<and>
   (inj (encodeURIComponent E) \<and> inj (\<lambda>r. createCacheKey E ''search'' [(''ref'', JStr r)]) \<and>
    r1 \<noteq> r2 \<longrightarrow>
      search_key E r1 \<noteq> search_key E r2 \<and>
      url (build_request E ''GET'' (search_endpoint E r1) None) \<noteq>
      url (build_request E ''GET'' (search_endpoint E r2) None) \<and>
      cache_get (cache (snd (searchByReference E r1 s))) (search_key E r2) =
        cache_get (cache s) (search_key E r2))"
proof -
  have bl: "serves_entry E (trackByBL E r)
     (createCacheKey E ''shipment:bl'' [(''bl'', JStr (toUpperCase E r))])
     (''/ocean/shipments?bl_number='' @ encodeURIComponent E (toUpperCase E r))
     (HOUR (TTL E) * 2) s"
    using track_serves [of E "''shipment:bl''" "''bl''" "''bl_number''" r s]
    by (simp add: trackByBL_def track_key_def track_endpoint_def)
  have ct: "serves_entry E (trackByContainer E r)
     (createCacheKey E ''shipment:container'' [(''container'', JStr (toUpperCase E r))])
     (''/ocean/shipments?container_number='' @ encodeURIComponent E (toUpperCase E r))
     (HOUR (TTL E) * 2) s"
    using track_serves [of E "''shipment:container''" "''container''" "''container_number''" r s]
    by (simp add: trackByContainer_def track_key_def track_endpoint_def)
  have bk: "serves_entry E (trackByBooking E r)
     (createCacheKey E ''shipment:booking'' [(''booking'', JStr (toUpperCase E r))])
     (''/ocean/shipments?booking_number='' @ encodeURIComponent E (toUpperCase E r))
     (HOUR (TTL E) * 2) s"
    using track_serves [of E "''shipment:booking''" "''booking''" "''booking_number''" r s]
    by (simp add: trackByBooking_def track_key_def track_endpoint_def)
  have se: "serves_entry E (searchByReference E r)
     (createCacheKey E ''search'' [(''ref'', JStr r)])
     (''/ocean/shipments?reference='' @ encodeURIComponent E r)
     (FIFTEEN_MINUTES (TTL E)) s"
    using search_serves [of E r s] by (simp add: search_key_def search_endpoint_def)
  have a: "trackByBL E r1 = trackByBL E r2 \<and> trackByContainer E r1 = trackByContainer E r2 \<and>
      trackByBooking E r1 = trackByBooking E r2"
    if "toUpperCase E r1 = toUpperCase E r2"
    using track_cong [OF that] by (simp add: trackByBL_def trackByContainer_def trackByBooking_def)
  have again: "(\<forall>v s1. trackByBL E r1 s = (Inr v, s1) \<longrightarrow> trackByBL E r2 s1 = (Inr v, s1)) \<and>
         (\<forall>v s1. trackByContainer E r1 s = (Inr v, s1) \<longrightarrow>
                  trackByContainer E r2 s1 = (Inr v, s1)) \<and>
         (\<forall>v s1. trackByBooking E r1 s = (Inr v, s1) \<longrightarrow>
                  trackByBooking E r2 s1 = (Inr v, s1))"
    if "toUpperCase E r1 = toUpperCase E r2" "\<not> cacheDisabled s" "enabled (cache s)"
    unfolding trackByBL_def trackByContainer_def trackByBooking_def
    using track_again [OF that] by blast
  have b: "sent (snd (trackByBL E r s)) =
        sent s @ [build_request E ''GET''
                    (''/ocean/shipments?bl_number='' @ encodeURIComponent E (toUpperCase E r)) None]"
    if "cacheDisabled s \<or> cache_get (cache s) (track_key E ''shipment:bl'' ''bl'' r) = None"
    using track_miss_sent [OF that, of "''bl_number''"]
    by (simp add: trackByBL_def track_endpoint_def)
  have c: "sent (snd (searchByReference E r s)) =
        sent s @ [build_request E ''GET''
                    (''/ocean/shipments?reference='' @ encodeURIComponent E r) None]"
    if "cacheDisabled s \<or> cache_get (cache s) (search_key E r) = None"
    using search_miss_sent [OF that] by (simp add: search_endpoint_def)
  have d: "search_key E r1 \<noteq> search_key E r2 \<and>
      url (build_request E ''GET'' (search_endpoint E r1) None) \<noteq>
      url (build_request E ''GET'' (search_endpoint E r2) None) \<and>
      cache_get (cache (snd (searchByReference E r1 s))) (search_key E r2) =
        cache_get (cache s) (search_key E r2)"
    if "inj (encodeURIComponent E)" "inj (\<lambda>r. createCacheKey E ''search'' [(''ref'', JStr r)])"
      "r1 \<noteq> r2"
  proof -
    have k: "search_key E r1 \<noteq> search_key E r2"
      using that(2,3) unfolding search_key_def by (auto dest: injD)
    moreover have "encodeURIComponent E r1 \<noteq> encodeURIComponent E r2"
      using that(1,3) by (auto dest: injD)
    ultimately show ?thesis
      using search_other [OF k] by (simp add: build_request_def search_endpoint_def)
  qed
  have keys: "track_key E ''shipment:bl'' ''bl'' r =
     createCacheKey E ''shipment:bl'' [(''bl'', JStr (toUpperCase E r))]"
    "search_key E r = createCacheKey E ''search'' [(''ref'', JStr r)]"
    by (simp_all add: track_key_def search_key_def)
  show ?thesis
    using bl ct bk se a again b c d keys by blast
qed

theorem reference_case_handling_witness:
  "trackByBL scripted ''maeu123456789'' = trackByBL scripted ''MAEU123456789'' \<and>
   search_key scripted ''so-1'' \<noteq> search_key scripted ''SO-1'' \<and>
   url (build_request scripted ''GET'' (search_endpoint scripted ''so-1'') None) \<noteq>
   url (build_request scripted ''GET'' (search_endpoint scripted ''SO-1'') None) \<and>
   sent (snd (trackByBL scripted ''maeu123456789'' (initial []))) =
     [\<lparr>http_method = ''GET'',
       url = ''https://api.shipsgo.com/v2/ocean/shipments?bl_number=MAEU123456789'',
       token_header = ''demo-key'', body = None\<rparr>] \<and>
   trackByBL scripted ''maeu123456789''
     (cached_state (CShipment (plain_shipment ''5773482'' ''EN_ROUTE'' (JNum 1000) None)) [])
   = (Inr (CShipment (plain_shipment ''5773482'' ''EN_ROUTE'' (JNum 1000) None)),
      cached_state (CShipment (plain_shipment ''5773482'' ''EN_ROUTE'' (JNum 1000) None)) []) \<and>
   (case trackByContainer scripted ''msku1234567''
           (initial [respond 200 (JObj [(''shipments'',
              JArr [JObj [(''id'', JNum 5773480), (''status'', JStr ''IN_TRANSIT'')]])])]) of
      (Inr v, s1) \<Rightarrow>
        v \<noteq> CNull \<and> trackByContainer scripted ''MSKU1234567'' s1 = (Inr v, s1) \<and>
        map url (sent s1) =
          [''https://api.shipsgo.com/v2/ocean/shipments?container_number=MSKU1234567'']
    | (Inl err, s1) \<Rightarrow> False) \<and>
   cache_get (cache (snd (searchByReference scripted ''so-1'' (initial [respond 404 (JObj [])]))))
     (search_key scripted ''so-1'') = Some (CShipments []) \<and>
   cache_get (cache (snd (searchByReference scripted ''so-1'' (initial [respond 404 (JObj [])]))))
     (search_key scripted ''SO-1'') = None"
proof -
  let ?sh = "plain_shipment ''5773482'' ''EN_ROUTE'' (JNum 1000) None"
  let ?hit = "cached_state (CShipment ?sh) []"
  let ?script = "[respond 200 (JObj [(''shipments'',
              JArr [JObj [(''id'', JNum 5773480), (''status'', JStr ''IN_TRANSIT'')]])])]"
  let ?miss = "initial [respond 404 (JObj [])]"
  have up: "toUpperCase scripted ''maeu123456789'' = toUpperCase scripted ''MAEU123456789''"
    by (simp add: scripted_fields ascii_upper_def lower_letters_def upper_letters_def)
  have up2: "toUpperCase scripted ''msku1234567'' = toUpperCase scripted ''MSKU1234567''"
    by (simp add: scripted_fields ascii_upper_def lower_letters_def upper_letters_def)
  have i1: "inj (encodeURIComponent scripted)"
    by (simp add: scripted_fields inj_def percent_encode_inj)
  have i2: "inj (\<lambda>r. createCacheKey scripted ''search'' [(''ref'', JStr r)])"
    by (simp add: scripted_fields inj_def scripted_key_def)
  have ne: "''so-1'' \<noteq> ''SO-1''" by simp
  have miss: "cacheDisabled (initial []) \<or>
      cache_get (cache (initial [])) (track_key scripted ''shipment:bl'' ''bl'' ''maeu123456789'') = None"
    by (simp add: initial_def cache_get_def)
  have enc: "encodeURIComponent scripted (toUpperCase scripted ''maeu123456789'') = ''MAEU123456789''"
    by (simp add: scripted_fields ascii_upper_def lower_letters_def upper_letters_def
        percent_encode_def percent_encode_char_def unreserved_chars_def digit_chars_def)
  have enc2: "encodeURIComponent scripted (toUpperCase scripted ''msku1234567'') = ''MSKU1234567''"
    by (simp add: scripted_fields ascii_upper_def lower_letters_def upper_letters_def
        percent_encode_def percent_encode_char_def unreserved_chars_def digit_chars_def)
  note t1 = reference_case_handling [where E = scripted and ?r1.0 = "''maeu123456789''"
      and ?r2.0 = "''MAEU123456789''" and r = "''maeu123456789''" and s = "initial []"]
  note t2 = reference_case_handling [where E = scripted and ?r1.0 = "''so-1''"
      and ?r2.0 = "''SO-1''" and r = "''so-1''" and s = ?miss]
  note t3 = reference_case_handling [where E = scripted and ?r1.0 = "''maeu123456789''"
      and ?r2.0 = "''MAEU123456789''" and r = "''maeu123456789''" and s = ?hit]
  note t4 = reference_case_handling [where E = scripted and ?r1.0 = "''msku1234567''"
      and ?r2.0 = "''MSKU1234567''" and r = "''msku1234567''" and s = "initial ?script"]
  have a: "trackByBL scripted ''maeu123456789'' = trackByBL scripted ''MAEU123456789''"
    using t1 up by blast
  have b: "search_key scripted ''so-1'' \<noteq> search_key scripted ''SO-1'' \<and>
     url (build_request scripted ''GET'' (search_endpoint scripted ''so-1'') None) \<noteq>
     url (build_request scripted ''GET'' (search_endpoint scripted ''SO-1'') None)"
    using t2 i1 i2 ne by blast
  have "sent (snd (trackByBL scripted ''maeu123456789'' (initial []))) =
        sent (initial []) @ [build_request scripted ''GET''
           (''/ocean/shipments?bl_number='' @
            encodeURIComponent scripted (toUpperCase scripted ''maeu123456789'')) None]"
    using t1 miss by blast
  then have c: "sent (snd (trackByBL scripted ''maeu123456789'' (initial []))) =
     [\<lparr>http_method = ''GET'',
       url = ''https://api.shipsgo.com/v2/ocean/shipments?bl_number=MAEU123456789'',
       token_header = ''demo-key'', body = None\<rparr>]"
    unfolding enc by (simp add: build_request_def scripted_fields initial_def)
  have key: "createCacheKey scripted ''shipment:bl''
               [(''bl'', JStr (toUpperCase scripted ''maeu123456789''))] =
             ''shipment:bl:bl=MAEU123456789''"
    by (simp add: scripted_fields scripted_key_def ascii_upper_def lower_letters_def
        upper_letters_def)
  have "serves_entry scripted (trackByBL scripted ''maeu123456789'')
          ''shipment:bl:bl=MAEU123456789''
          (''/ocean/shipments?bl_number='' @
             encodeURIComponent scripted (toUpperCase scripted ''maeu123456789''))
          (HOUR (TTL scripted) * 2) ?hit"
    using t3 unfolding key by blast
  then have d: "trackByBL scripted ''maeu123456789'' ?hit = (Inr (CShipment ?sh), ?hit)"
    by (simp add: serves_entry_def cached_state_def initial_def cache_get_def)
  obtain v s1 where run: "trackByContainer scripted ''msku1234567'' (initial ?script) = (Inr v, s1)"
    and v: "v \<noteq> CNull"
    by (simp add: trackByContainer_def track_def getOrFetch_def track_key_def track_endpoint_def
        track_producer_def shipments_of_def cache_get_def cache_set_def scripted_fields
        request_eval mapper_eval select_eval)
  have on: "\<not> cacheDisabled (initial ?script) \<and> enabled (cache (initial ?script))"
    by (simp add: initial_def)
  have again: "trackByContainer scripted ''MSKU1234567'' s1 = (Inr v, s1)"
    using t4 up2 on run by blast
  have ms: "cacheDisabled (initial ?script) \<or>
      cache_get (cache (initial ?script))
        (createCacheKey scripted ''shipment:container''
           [(''container'', JStr (toUpperCase scripted ''msku1234567''))]) = None"
    by (simp add: initial_def cache_get_def)
  have "serves_entry scripted (trackByContainer scripted ''msku1234567'')
          (createCacheKey scripted ''shipment:container''
             [(''container'', JStr (toUpperCase scripted ''msku1234567''))])
          (''/ocean/shipments?container_number='' @
             encodeURIComponent scripted (toUpperCase scripted ''msku1234567''))
          (HOUR (TTL scripted) * 2) (initial ?script)"
    using t4 by blast
  then have "sent (snd (trackByContainer scripted ''msku1234567'' (initial ?script))) =
      sent (initial ?script) @ [build_request scripted ''GET''
         (''/ocean/shipments?container_number='' @
            encodeURIComponent scripted (toUpperCase scripted ''msku1234567'')) None]"
    using ms by (auto simp: serves_entry_def split: if_splits option.splits)
  then have sn: "map url (sent s1) =
      [''https://api.shipsgo.com/v2/ocean/shipments?container_number=MSKU1234567'']"
    unfolding enc2 run by (simp add: build_request_def scripted_fields initial_def)
  have e: "(case trackByContainer scripted ''msku1234567'' (initial ?script) of
      (Inr v, s1) \<Rightarrow>
        v \<noteq> CNull \<and> trackByContainer scripted ''MSKU1234567'' s1 = (Inr v, s1) \<and>
        map url (sent s1) =
          [''https://api.shipsgo.com/v2/ocean/shipments?container_number=MSKU1234567'']
    | (Inl err, s1) \<Rightarrow> False)"
    unfolding run using v again sn by simp
  have stored: "cache_get (cache (snd (searchByReference scripted ''so-1'' ?miss)))
     (search_key scripted ''so-1'') = Some (CShipments [])"
    by (simp add: searchByReference_def getOrFetch_def search_key_def search_endpoint_def
        search_producer_def cache_get_def cache_set_def scripted_fields request_eval)
  have "cache_get (cache (snd (searchByReference scripted ''so-1'' ?miss)))
          (search_key scripted ''SO-1'') = cache_get (cache ?miss) (search_key scripted ''SO-1'')"
    using t2 i1 i2 ne by blast
  then have f: "cache_get (cache (snd (searchByReference scripted ''so-1'' ?miss)))
     (search_key scripted ''SO-1'') = None"
    by (simp add: initial_def cache_get_def)
  show ?thesis using a b c d e stored f by blast
qed

section \<open>Properties of the create\<close>

lemma createShipment_hit:
  assumes "cache_get (cache s) (buildCacheKey E d) = Some (CShipment sh)" "not_discarded sh"
  shows "createShipment E d customReference s =
           (Inr \<lparr>res_shipment = CShipment sh, res_source = ''cache'', res_creditUsed = False,
                 res_warning = None\<rparr>, s)"
  using assms
  by (auto simp: createShipment_def Let_def cached_truthy_def discarded_prop_def not_discarded_def
      split: option.splits)

lemma createShipment_miss:
  assumes "cache_get (cache s) (buildCacheKey E d) = None \<or>
           (\<exists>sh. cache_get (cache s) (buildCacheKey E d) = Some (CShipment sh) \<and> \<not> not_discarded sh)"
  shows "createShipment E d customReference s =
           fetchWithRetry E (create_attempt E d customReference (buildCacheKey E d)) 3 1000 s"
  using assms
  by (auto simp: createShipment_def Let_def cached_truthy_def discarded_prop_def not_discarded_def
      split: option.splits)

lemma fetchWithRetry_create_sent:
  "\<exists>rest. sent (snd (fetchWithRetry E (create_attempt E d customReference k) maxRetries baseDelay s))
     = sent s @ build_request E ''POST'' ''/ocean/shipments'' (Some (create_body d)) # rest"
proof -
  let ?fn = "create_attempt E d customReference k"
  have "prefix (sent (snd (?fn s)))
          (sent (snd (retry_loop E ?fn maxRetries baseDelay 0 None s)))"
    by (rule retry_loop_first) (simp_all add: create_attempt_prefix)
  then have "prefix (sent s @ [build_request E ''POST'' ''/ocean/shipments'' (Some (create_body d))])
          (sent (snd (fetchWithRetry E ?fn maxRetries baseDelay s)))"
    using create_attempt_sent [of s E d customReference k]
    unfolding fetchWithRetry_def by (rule prefix_order.trans [rotated])
  then show ?thesis by (auto simp: prefix_def)
qed

text \<open>
  C7. When the cache holds, under the key of the request, a shipment without a discarded
  timestamp, \<open>createShipment\<close> returns it with source \<open>cache\<close> and \<open>creditUsed\<close> false and
  leaves the state as it was (no request is sent). On a miss, or when the cached
  shipment has a discarded timestamp, \<open>createShipment\<close> is the create under the retry
  wrapper, and the first request it sends is the POST of the create body to
  \<open>/ocean/shipments\<close>.
\<close>

theorem createShipment_cache_reuse:
  "(cache_get (cache s) (buildCacheKey E d) = Some (CShipment sh) \<and> not_discarded sh \<longrightarrow>
      createShipment E d customReference s =
        (Inr \<lparr>res_shipment = CShipment sh, res_source = ''cache'', res_creditUsed = False,
              res_warning = None\<rparr>, s)) \<and>
   (cache_get (cache s) (buildCacheKey E d) = None \<or>
    (\<exists>sh. cache_get (cache s) (buildCacheKey E d) = Some (CShipment sh) \<and> \<not> not_discarded sh)
    \<longrightarrow>
      createShipment E d customReference s =
        fetchWithRetry E (create_attempt E d customReference (buildCacheKey E d)) 3 1000 s \<and>
      (\<exists>rest. sent (snd (createShipment E d customReference s)) =
         sent s @ \<lparr>http_method = ''POST'', url = baseUrl E @ ''/ocean/shipments'',
                   token_header = apiKey E, body = Some (create_body d)\<rparr> # rest))"
proof -
  have rq: "build_request E ''POST'' ''/ocean/shipments'' (Some (create_body d)) =
      \<lparr>http_method = ''POST'', url = baseUrl E @ ''/ocean/shipments'',
       token_header = apiKey E, body = Some (create_body d)\<rparr>"
    by (simp add: build_request_def create_body_def)
  have miss: "createShipment E d customReference s =
        fetchWithRetry E (create_attempt E d customReference (buildCacheKey E d)) 3 1000 s \<and>
      (\<exists>rest. sent (snd (createShipment E d customReference s)) =
         sent s @ \<lparr>http_method = ''POST'', url = baseUrl E @ ''/ocean/shipments'',
                   token_header = apiKey E, body = Some (create_body d)\<rparr> # rest)"
    if m: "cache_get (cache s) (buildCacheKey E d) = None \<or>
      (\<exists>sh. cache_get (cache s) (buildCacheKey E d) = Some (CShipment sh) \<and> \<not> not_discarded sh)"
    using createShipment_miss [OF m, of customReference]
      fetchWithRetry_create_sent [of E d customReference "buildCacheKey E d" 3 1000 s]
    unfolding rq by simp
  show ?thesis using createShipment_hit miss by blast
qed

theorem createShipment_cache_reuse_witness:
  "createShipment scripted bl_request None
     (cached_state (CShipment (plain_shipment ''5773482'' ''EN_ROUTE'' (JNum 1000) None))
        [respond 201 (JObj [(''id'', JStr ''5773490'')])])
   = (Inr \<lparr>res_shipment = CShipment (plain_shipment ''5773482'' ''EN_ROUTE'' (JNum 1000) None),
           res_source = ''cache'', res_creditUsed = False, res_warning = None\<rparr>,
      cached_state (CShipment (plain_shipment ''5773482'' ''EN_ROUTE'' (JNum 1000) None))
        [respond 201 (JObj [(''id'', JStr ''5773490'')])]) \<and>
   map http_method (sent (snd (createShipment scripted bl_request None
     (cached_state (CShipment (plain_shipment ''5773482'' ''EN_ROUTE'' (JNum 1000)
                                 (Some (JStr ''2024-05-01''))))
        [respond 201 (JObj [(''id'', JStr ''5773490'')])])))) = [''POST''] \<and>
   (case fst (createShipment scripted bl_request None
                (initial [respond 201 (JObj [(''id'', JStr ''5773490'')])])) of
      Inr res \<Rightarrow> res_source res = ''created'' \<and> res_creditUsed res
    | Inl err \<Rightarrow> False)"
proof -
  let ?live = "plain_shipment ''5773482'' ''EN_ROUTE'' (JNum 1000) None"
  let ?dead = "plain_shipment ''5773482'' ''EN_ROUTE'' (JNum 1000) (Some (JStr ''2024-05-01''))"
  let ?script = "[respond 201 (JObj [(''id'', JStr ''5773490'')])]"
  have key: "buildCacheKey scripted bl_request = ''shipment:bl:bl=MAEU123456789''"
    by (simp add: create_eval scripted_fields)
  have hit: "cache_get (cache (cached_state (CShipment ?live) ?script))
               (buildCacheKey scripted bl_request) = Some (CShipment ?live)"
    unfolding key by (simp add: cached_state_def cache_get_def initial_def)
  have live: "not_discarded ?live" by (simp add: not_discarded_def plain_shipment_def)
  have a: "createShipment scripted bl_request None (cached_state (CShipment ?live) ?script)
     = (Inr \<lparr>res_shipment = CShipment ?live, res_source = ''cache'', res_creditUsed = False,
             res_warning = None\<rparr>, cached_state (CShipment ?live) ?script)"
    using createShipment_cache_reuse [of "cached_state (CShipment ?live) ?script" scripted
        bl_request ?live None] hit live by blast
  have b: "map http_method (sent (snd (createShipment scripted bl_request None
             (cached_state (CShipment ?dead) ?script)))) = [''POST'']"
    by (simp add: create_eval scripted_fields request_eval retry_step cached_state_def
        discarded_prop_def cached_truthy_def plain_shipment_def mapper_eval cache_set_def
        getCacheTTL_def status_prop_def)
  have c: "(case fst (createShipment scripted bl_request None (initial ?script)) of
      Inr res \<Rightarrow> res_source res = ''created'' \<and> res_creditUsed res
    | Inl err \<Rightarrow> False)"
    by (simp add: create_eval scripted_fields request_eval retry_step
        discarded_prop_def cached_truthy_def mapper_eval cache_set_def
        getCacheTTL_def status_prop_def)
  show ?thesis using a b c by blast
qed

section \<open>Properties of the sharing link\<close>

lemma request_responded:
  assumes "fetch E (build_request E m endpoint b) (world s) = (Responded r, w1)"
    and "resp_status r \<noteq> 429" "resp_status r \<noteq> 402"
  shows "request E m endpoint b s =
           (Inr (json_or_empty r, r),
            updateRateLimitFromResponse E r
              (s\<lparr>world := w1, sent := sent s @ [build_request E m endpoint b]\<rparr>))"
  using assms by (simp add: request_def Let_def)

text \<open>
  C8. Without a truthy cached link, when the fetch of \<open>/ocean/shipments/{id}\<close> is answered:
  a 2xx response that carries a non-empty token string, either under
  \<open>shipment.tokens.map\<close> or, the payload having no \<open>shipment\<close> field, under \<open>tokens.map\<close>,
  gives a link whose URL is \<open>https://map.shipsgo.com/ocean/shipments/{id}?token={token}\<close>, and
  the link is stored in the cache under the key of the identifier with the TTL of a day;
  a 2xx response with a payload that has no token at either place, and a 404, give
  \<open>null\<close> and leave the cache as it was.
\<close>

theorem getSharingLink_token:
  assumes miss: "case cache_get (cache s) (sharing_key E sid) of
                   Some c \<Rightarrow> \<not> cached_truthy c | None \<Rightarrow> True"
    and resp: "fetch E (build_request E ''GET'' (''/ocean/shipments/'' @ sid) None) (world s)
                 = (Responded r, w1)"
    and s1: "s1 = updateRateLimitFromResponse E r
                   (s\<lparr>world := w1,
                      sent := sent s @ [build_request E ''GET'' (''/ocean/shipments/'' @ sid) None]\<rparr>)"
  shows
   "(ok r \<and> resp_json r = Some d \<and> token \<noteq> [] \<and>
     ((\<exists>sh tk. js_get d ''shipment'' = JObj sh \<and> js_get (JObj sh) ''tokens'' = JObj tk \<and>
               js_get (JObj tk) ''map'' = JStr token) \<or>
      (\<exists>top tk. d = JObj top \<and> \<not> truthy (js_get d ''shipment'') \<and>
                js_get d ''tokens'' = JObj tk \<and> js_get (JObj tk) ''map'' = JStr token))
     \<longrightarrow> (\<exists>res. getSharingLink E sid s =
                   (Inr (CLink res),
                    s1\<lparr>cache := cache_set (cache s) (sharing_key E sid) (CLink res) (DAY (TTL E))\<rparr>) \<and>
                link_url res = ''https://map.shipsgo.com/ocean/shipments/'' @ sid @ ''?token='' @ token \<and>
                link_shipmentId res = sid)) \<and>
    (ok r \<and> resp_json r = Some d \<and> \<not> nullish d \<and>
     \<not> truthy (prop_opt (js_get (js_get d ''shipment'') ''tokens'') ''map'') \<and>
     \<not> truthy (prop_opt (js_get d ''tokens'') ''map'')
     \<longrightarrow> getSharingLink E sid s = (Inr CNull, s1) \<and> cache s1 = cache s) \<and>
    (resp_status r = 404 \<longrightarrow> getSharingLink E sid s = (Inr CNull, s1) \<and> cache s1 = cache s)"
proof -
  have cm: "\<not> (case cache_get (cache s) (sharing_key E sid) of
               Some c \<Rightarrow> cached_truthy c | None \<Rightarrow> False)"
    using miss by (simp split: option.splits)
  have c1: "cache s1 = cache s" by (simp add: s1)
  have rq: "request E ''GET'' (''/ocean/shipments/'' @ sid) None s = (Inr (json_or_empty r, r), s1)"
    if "resp_status r \<noteq> 429" "resp_status r \<noteq> 402"
    using request_responded [OF resp that] s1 by simp
  have notfound: "getSharingLink E sid s = (Inr CNull, s1)" if "resp_status r = 404"
  proof -
    have "request E ''GET'' (''/ocean/shipments/'' @ sid) None s = (Inr (json_or_empty r, r), s1)"
      using rq that by simp
    then show ?thesis using cm that by (simp add: getSharingLink_def Let_def ok_def)
  qed
  have okrq: "request E ''GET'' (''/ocean/shipments/'' @ sid) None s = (Inr (d, r), s1)"
    if "ok r" "resp_json r = Some d"
    using rq that by (simp add: ok_def json_or_empty_def)
  have none: "getSharingLink E sid s = (Inr CNull, s1)"
    if o: "ok r" "resp_json r = Some d" and nn: "\<not> nullish d"
      and n1: "\<not> truthy (prop_opt (js_get (js_get d ''shipment'') ''tokens'') ''map'')"
      and n2: "\<not> truthy (prop_opt (js_get d ''tokens'') ''map'')"
  proof -
    have "\<not> truthy (prop_opt (js_get (js_or (js_get d ''shipment'') d) ''tokens'') ''map'')"
      using n1 n2 by (simp add: js_or_def)
    then show ?thesis using okrq [OF o] cm o nn by (simp add: getSharingLink_def Let_def)
  qed
  have some: "\<exists>res. getSharingLink E sid s =
                   (Inr (CLink res),
                    s1\<lparr>cache := cache_set (cache s) (sharing_key E sid) (CLink res) (DAY (TTL E))\<rparr>) \<and>
                link_url res = ''https://map.shipsgo.com/ocean/shipments/'' @ sid @ ''?token='' @ token \<and>
                link_shipmentId res = sid"
    if o: "ok r" "resp_json r = Some d" and t: "token \<noteq> []"
      and shape: "(\<exists>sh tk. js_get d ''shipment'' = JObj sh \<and> js_get (JObj sh) ''tokens'' = JObj tk \<and>
               js_get (JObj tk) ''map'' = JStr token) \<or>
      (\<exists>top tk. d = JObj top \<and> \<not> truthy (js_get d ''shipment'') \<and>
                js_get d ''tokens'' = JObj tk \<and> js_get (JObj tk) ''map'' = JStr token)"
  proof -
    have nn: "\<not> nullish d" using shape by (auto simp: nullish_def)
    have tok: "prop_opt (js_get (js_or (js_get d ''shipment'') d) ''tokens'') ''map'' = JStr token"
      using shape by (auto simp: js_or_def prop_opt_def nullish_def)
    show ?thesis
      using okrq [OF o] cm o nn t
      by (simp add: getSharingLink_def Let_def tok c1)
  qed
  show ?thesis using some none notfound c1 by blast
qed

theorem getSharingLink_token_witness:
  "(\<exists>res. fst (getSharingLink scripted ''5773482''
                 (initial [respond 200
                    (JObj [(''shipment'',
                            JObj [(''id'', JNum 5773482),
                                  (''tokens'', JObj [(''map'', JStr ''example-token-uuid'')])])])]))
            = Inr (CLink res) \<and>
          link_url res =
            ''https://map.shipsgo.com/ocean/shipments/5773482?token=example-token-uuid'') \<and>
   (\<exists>res. fst (getSharingLink scripted ''5773482''
                 (initial [respond 200
                    (JObj [(''id'', JNum 5773482),
                           (''tokens'', JObj [(''map'', JStr ''example-token-uuid'')])])]))
            = Inr (CLink res) \<and>
          link_url res =
            ''https://map.shipsgo.com/ocean/shipments/5773482?token=example-token-uuid'') \<and>
   fst (getSharingLink scripted ''5773482''
          (initial [respond 200 (JObj [(''id'', JNum 5773482), (''tokens'', JObj [])])]))
     = Inr CNull \<and>
   entries (cache (snd (getSharingLink scripted ''5773482''
          (initial [respond 200 (JObj [(''id'', JNum 5773482), (''tokens'', JObj [])])]))))
     = []"
proof -
  let ?nested = "JObj [(''shipment'',
                        JObj [(''id'', JNum 5773482),
                              (''tokens'', JObj [(''map'', JStr ''example-token-uuid'')])])]"
  let ?top = "JObj [(''id'', JNum 5773482),
                    (''tokens'', JObj [(''map'', JStr ''example-token-uuid'')])]"
  let ?bare = "JObj [(''id'', JNum 5773482), (''tokens'', JObj [])]"
  have miss: "case cache_get (cache (initial script)) (sharing_key scripted ''5773482'') of
                Some c \<Rightarrow> \<not> cached_truthy c | None \<Rightarrow> True" for script
    by (simp add: initial_def cache_get_def)
  have resp: "fetch scripted (build_request scripted ''GET'' (''/ocean/shipments/'' @ ''5773482'') None)
                (world (initial [respond 200 b]))
              = (Responded \<lparr>resp_status = 200, resp_headers = [], resp_json = Some b\<rparr>, [])" for b
    by (simp add: scripted_fields scripted_fetch_def initial_def respond_def)
  note nested = getSharingLink_token [where d = ?nested and token = "''example-token-uuid''",
      OF miss resp refl]
  note top = getSharingLink_token [where d = ?top and token = "''example-token-uuid''",
      OF miss resp refl]
  note bare = getSharingLink_token [where d = ?bare and token = "''x''", OF miss resp refl]
  have a: "\<exists>res. fst (getSharingLink scripted ''5773482'' (initial [respond 200 ?nested]))
            = Inr (CLink res) \<and>
          link_url res =
            ''https://map.shipsgo.com/ocean/shipments/5773482?token=example-token-uuid''"
    using nested by (simp add: ok_def) (metis fst_conv)
  have b: "\<exists>res. fst (getSharingLink scripted ''5773482'' (initial [respond 200 ?top]))
            = Inr (CLink res) \<and>
          link_url res =
            ''https://map.shipsgo.com/ocean/shipments/5773482?token=example-token-uuid''"
    using top by (simp add: ok_def) (metis fst_conv)
  have c: "fst (getSharingLink scripted ''5773482'' (initial [respond 200 ?bare])) = Inr CNull \<and>
     entries (cache (snd (getSharingLink scripted ''5773482'' (initial [respond 200 ?bare])))) = []"
    using bare by (simp add: ok_def nullish_def prop_opt_def initial_def)
  show ?thesis using a b c by blast
qed

end
